theory Spec2Isabelle
  imports Complex_Main
begin

section \<open>Python values and exceptions\<close>

text \<open>
  The program is written in Python and handles the output of \<^verbatim>\<open>json.loads\<close>: values
  without static types.  They are modelled by one datatype.  A dictionary is an association
  list in insertion order whose first binding of a key is the binding of that key
  (dictionaries made by \<^verbatim>\<open>json.loads\<close> have string keys only).

  A finite \<^verbatim>\<open>float\<close> is idealised as an exact rational number: the rounding and the
  range of IEEE binary64 are not modelled, and there is no negative zero.  Strings are
  lists of one-byte characters.
\<close>

datatype pyfloat = Fin rat | PInf | NInf | NaN

datatype pyval =
    VNone
  | VBool bool
  | VInt int
  | VFloat pyfloat
  | VStr string
  | VList "pyval list"
  | VTuple "pyval list"
  | VDict "(string \<times> pyval) list"

type_synonym pydict = "(string \<times> pyval) list"

text \<open>
  Every exception the modelled code can raise.  All of them derive from Python's
  \<^verbatim>\<open>Exception\<close>, so a handler \<^verbatim>\<open>except Exception\<close> (and a bare \<^verbatim>\<open>except\<close>)
  catches each of them.  The \<^verbatim>\<open>FFprobe...Error\<close> constructors carry the arguments of
  the classes of \<^verbatim>\<open>exceptions.py\<close>.
\<close>

datatype py_error =
    KeyError
  | TypeError
  | ValueError
  | AttributeError
  | IndexError
  | OverflowError
  | ZeroDivisionError
  | RequestException
  | SqliteError
  | FFprobeInvalidArgumentError string string pyval
  | FFprobeOverrideFileError string
  | FFprobeExecutableError string
  | FFprobeMediaFileError string
  | FFprobePopenError string
  | FFprobeJsonParseError string
  | FFprobeSubprocessError "string list" int string
  | FFprobeStreamSubclassError string pyval string

definition py_bind :: "py_error + 'a \<Rightarrow> ('a \<Rightarrow> py_error + 'b) \<Rightarrow> py_error + 'b" where
  "py_bind m f = (case m of Inl e \<Rightarrow> Inl e | Inr x \<Rightarrow> f x)"

text \<open>\<^verbatim>\<open>try: body  except Exception: return default\<close>\<close>

definition try_except :: "py_error + 'a \<Rightarrow> 'a \<Rightarrow> py_error + 'a" where
  "try_except body handler = (case body of Inl e \<Rightarrow> Inr handler | Inr v \<Rightarrow> Inr v)"

subsection \<open>Dictionaries, subscription, length, iteration\<close>

definition dict_getitem :: "pydict \<Rightarrow> string \<Rightarrow> py_error + pyval" where
  "dict_getitem d k = (case map_of d k of None \<Rightarrow> Inl KeyError | Some v \<Rightarrow> Inr v)"

definition dict_get :: "pydict \<Rightarrow> string \<Rightarrow> pyval \<Rightarrow> pyval" where
  "dict_get d k dflt = (case map_of d k of None \<Rightarrow> dflt | Some v \<Rightarrow> v)"

fun dict_setitem :: "pydict \<Rightarrow> string \<Rightarrow> pyval \<Rightarrow> pydict" where
  "dict_setitem [] k v = [(k, v)]"
| "dict_setitem ((k', v') # d) k v =
     (if k' = k then (k, v) # d else (k', v') # dict_setitem d k v)"

text \<open>\<^verbatim>\<open>obj[key]\<close> with a string key: only a dictionary accepts it.\<close>

fun getitem :: "pyval \<Rightarrow> string \<Rightarrow> py_error + pyval" where
  "getitem (VDict d) k = dict_getitem d k"
| "getitem _ k = Inl TypeError"

text \<open>\<^verbatim>\<open>obj[0]\<close>\<close>

fun getitem0 :: "pyval \<Rightarrow> py_error + pyval" where
  "getitem0 (VList []) = Inl IndexError"
| "getitem0 (VList (x # xs)) = Inr x"
| "getitem0 (VTuple []) = Inl IndexError"
| "getitem0 (VTuple (x # xs)) = Inr x"
| "getitem0 (VStr []) = Inl IndexError"
| "getitem0 (VStr (c # cs)) = Inr (VStr [c])"
| "getitem0 (VDict d) = Inl KeyError"
| "getitem0 _ = Inl TypeError"

text \<open>\<^verbatim>\<open>obj[key] = value\<close> with a string key.\<close>

fun setitem :: "pyval \<Rightarrow> string \<Rightarrow> pyval \<Rightarrow> py_error + pyval" where
  "setitem (VDict d) k v = Inr (VDict (dict_setitem d k v))"
| "setitem _ k v = Inl TypeError"

fun py_len :: "pyval \<Rightarrow> py_error + nat" where
  "py_len (VList xs) = Inr (length xs)"
| "py_len (VTuple xs) = Inr (length xs)"
| "py_len (VStr s) = Inr (length s)"
| "py_len (VDict d) = Inr (length (remdups (map fst d)))"
| "py_len _ = Inl TypeError"

text \<open>The elements a \<^verbatim>\<open>for\<close> loop visits.\<close>

fun py_iter :: "pyval \<Rightarrow> py_error + pyval list" where
  "py_iter (VList xs) = Inr xs"
| "py_iter (VTuple xs) = Inr xs"
| "py_iter (VStr s) = Inr (map (\<lambda>c. VStr [c]) s)"
| "py_iter (VDict d) = Inr (map VStr (remdups (map fst d)))"
| "py_iter _ = Inl TypeError"

subsection \<open>Numbers from strings\<close>

text \<open>
  \<^verbatim>\<open>int(s)\<close> and \<^verbatim>\<open>float(s)\<close> on a string, after the grammar of the language
  reference: surrounding whitespace is stripped, a sign may lead, digits may be grouped by
  single underscores; \<^verbatim>\<open>float\<close> also reads a fraction, an exponent, and the words
  \<^verbatim>\<open>inf\<close>, \<^verbatim>\<open>infinity\<close> and \<^verbatim>\<open>nan\<close> in any case.  Only ASCII is modelled, and
  no limit on the number of digits.
\<close>

definition is_digit :: "char \<Rightarrow> bool" where
  "is_digit c = (c \<in> set ''0123456789'')"

definition digit_val :: "char \<Rightarrow> nat" where
  "digit_val c = length (takeWhile (\<lambda>d. d \<noteq> c) ''0123456789'')"

definition is_space :: "char \<Rightarrow> bool" where
  "is_space c = (c \<in> set [CHR 0x09, CHR 0x0A, CHR 0x0B, CHR 0x0C, CHR 0x0D, CHR '' ''])"

definition py_strip :: "string \<Rightarrow> string" where
  "py_strip s = rev (dropWhile is_space (rev (dropWhile is_space s)))"

fun digitpart_ok :: "string \<Rightarrow> bool" where
  "digitpart_ok [] = False"
| "digitpart_ok [c] = is_digit c"
| "digitpart_ok (c # d # r) =
     (is_digit c \<and> (if d = CHR ''_'' then digitpart_ok r else digitpart_ok (d # r)))"

definition digits_nat :: "string \<Rightarrow> nat" where
  "digits_nat s = foldl (\<lambda>a c. 10 * a + digit_val c) 0 (filter is_digit s)"

definition split_sign :: "string \<Rightarrow> bool \<times> string" where
  "split_sign s =
     (case s of
        [] \<Rightarrow> (False, [])
      | c # r \<Rightarrow> if c = CHR ''-'' then (True, r) else if c = CHR ''+'' then (False, r)
                 else (False, s))"

definition int_of_str :: "string \<Rightarrow> int option" where
  "int_of_str s =
     (let (neg, body) = split_sign (py_strip s)
      in if digitpart_ok body
         then Some (if neg then - int (digits_nat body) else int (digits_nat body))
         else None)"

definition lower :: "char \<Rightarrow> char" where
  "lower c =
     (case List.find (\<lambda>(u, l). u = c)
             (zip ''ABCDEFGHIJKLMNOPQRSTUVWXYZ'' ''abcdefghijklmnopqrstuvwxyz'') of
        None \<Rightarrow> c
      | Some (u, l) \<Rightarrow> l)"

text \<open>The part of a string before the first character that satisfies \<open>P\<close>, and the part after it.\<close>

definition split_at :: "(char \<Rightarrow> bool) \<Rightarrow> string \<Rightarrow> string \<times> string option" where
  "split_at P s =
     (case dropWhile (\<lambda>c. \<not> P c) s of
        [] \<Rightarrow> (s, None)
      | c # r \<Rightarrow> (takeWhile (\<lambda>c. \<not> P c) s, Some r))"

definition mantissa_of_str :: "string \<Rightarrow> rat option" where
  "mantissa_of_str m =
     (case split_at (\<lambda>c. c = CHR ''.'') m of
        (ip, None) \<Rightarrow> if digitpart_ok ip then Some (of_nat (digits_nat ip)) else None
      | (ip, Some fp) \<Rightarrow>
          if (ip = [] \<or> digitpart_ok ip) \<and> (fp = [] \<or> digitpart_ok fp) \<and> \<not> (ip = [] \<and> fp = [])
          then Some (of_nat (digits_nat ip)
                     + of_nat (digits_nat fp) / 10 ^ length (filter is_digit fp))
          else None)"

definition exponent_of_str :: "string \<Rightarrow> int option" where
  "exponent_of_str e =
     (let (neg, body) = split_sign e
      in if digitpart_ok body
         then Some (if neg then - int (digits_nat body) else int (digits_nat body))
         else None)"

definition scale10 :: "rat \<Rightarrow> int \<Rightarrow> rat" where
  "scale10 q e = (if 0 \<le> e then q * 10 ^ nat e else q / 10 ^ nat (- e))"

definition float_of_str :: "string \<Rightarrow> pyfloat option" where
  "float_of_str s =
     (let (neg, body) = split_sign (py_strip s); word = map lower body
      in if word = ''inf'' \<or> word = ''infinity'' then Some (if neg then NInf else PInf)
         else if word = ''nan'' then Some NaN
         else
           (case split_at (\<lambda>c. c = CHR ''e'' \<or> c = CHR ''E'') body of
              (m, None) \<Rightarrow>
                (case mantissa_of_str m of
                   None \<Rightarrow> None
                 | Some q \<Rightarrow> Some (Fin (if neg then - q else q)))
            | (m, Some e) \<Rightarrow>
                (case (mantissa_of_str m, exponent_of_str e) of
                   (Some q, Some x) \<Rightarrow> Some (Fin (scale10 (if neg then - q else q) x))
                 | _ \<Rightarrow> None)))"

subsection \<open>\<^verbatim>\<open>float(x)\<close>, \<^verbatim>\<open>int(x)\<close> and float arithmetic\<close>

fun py_float :: "pyval \<Rightarrow> py_error + pyfloat" where
  "py_float (VFloat x) = Inr x"
| "py_float (VInt i) = Inr (Fin (of_int i))"
| "py_float (VBool b) = Inr (Fin (if b then 1 else 0))"
| "py_float (VStr s) = (case float_of_str s of None \<Rightarrow> Inl ValueError | Some x \<Rightarrow> Inr x)"
| "py_float _ = Inl TypeError"

text \<open>\<^verbatim>\<open>int\<close> of a float truncates towards zero.\<close>

definition trunc :: "rat \<Rightarrow> int" where
  "trunc q = (if 0 \<le> q then \<lfloor>q\<rfloor> else - \<lfloor>- q\<rfloor>)"

fun int_of_float :: "pyfloat \<Rightarrow> py_error + int" where
  "int_of_float (Fin q) = Inr (trunc q)"
| "int_of_float NaN = Inl ValueError"
| "int_of_float _ = Inl OverflowError"

fun py_int :: "pyval \<Rightarrow> py_error + int" where
  "py_int (VInt i) = Inr i"
| "py_int (VBool b) = Inr (if b then 1 else 0)"
| "py_int (VFloat x) = int_of_float x"
| "py_int (VStr s) = (case int_of_str s of None \<Rightarrow> Inl ValueError | Some i \<Rightarrow> Inr i)"
| "py_int _ = Inl TypeError"

fun f_abs :: "pyfloat \<Rightarrow> pyfloat" where
  "f_abs (Fin q) = Fin \<bar>q\<bar>"
| "f_abs NaN = NaN"
| "f_abs _ = PInf"

text \<open>\<^verbatim>\<open>a < b\<close> and \<^verbatim>\<open>a <= b\<close>: false when an operand is not a number.\<close>

fun f_less :: "pyfloat \<Rightarrow> pyfloat \<Rightarrow> bool" where
  "f_less NaN b = False"
| "f_less a NaN = False"
| "f_less (Fin a) (Fin b) = (a < b)"
| "f_less NInf b = (b \<noteq> NInf)"
| "f_less a PInf = (a \<noteq> PInf)"
| "f_less a b = False"

definition f_le :: "pyfloat \<Rightarrow> pyfloat \<Rightarrow> bool" where
  "f_le a b = (a \<noteq> NaN \<and> b \<noteq> NaN \<and> (a = b \<or> f_less a b))"

text \<open>\<^verbatim>\<open>x / d\<close>, \<^verbatim>\<open>x // d\<close>, \<^verbatim>\<open>x % d\<close> and \<^verbatim>\<open>x * d\<close> for a finite positive constant \<open>d\<close>.\<close>

fun f_div_const :: "pyfloat \<Rightarrow> rat \<Rightarrow> pyfloat" where
  "f_div_const (Fin q) d = Fin (q / d)"
| "f_div_const x d = x"

fun f_floordiv_const :: "pyfloat \<Rightarrow> rat \<Rightarrow> pyfloat" where
  "f_floordiv_const (Fin q) d = Fin (of_int \<lfloor>q / d\<rfloor>)"
| "f_floordiv_const x d = NaN"

fun f_mod_const :: "pyfloat \<Rightarrow> rat \<Rightarrow> pyfloat" where
  "f_mod_const (Fin q) d = Fin (q - d * of_int \<lfloor>q / d\<rfloor>)"
| "f_mod_const x d = NaN"

fun f_mul_const :: "pyfloat \<Rightarrow> rat \<Rightarrow> pyfloat" where
  "f_mul_const (Fin q) d = Fin (q * d)"
| "f_mul_const x d = x"

fun f_sub :: "pyfloat \<Rightarrow> pyfloat \<Rightarrow> pyfloat" where
  "f_sub (Fin a) (Fin b) = Fin (a - b)"
| "f_sub NaN b = NaN"
| "f_sub a NaN = NaN"
| "f_sub PInf b = (if b = PInf then NaN else PInf)"
| "f_sub NInf b = (if b = NInf then NaN else NInf)"
| "f_sub a PInf = NInf"
| "f_sub a NInf = PInf"

subsection \<open>Formatting numbers\<close>

definition digit_char :: "nat \<Rightarrow> char" where
  "digit_char n = ''0123456789'' ! (n mod 10)"

function nat_str :: "nat \<Rightarrow> string" where
  "nat_str n = (if n < 10 then [digit_char n] else nat_str (n div 10) @ [digit_char n])"
  by pat_completeness auto
termination
  by (relation "measure id") auto

definition round_half_even :: "rat \<Rightarrow> int" where
  "round_half_even q =
     (let n = \<lfloor>q\<rfloor>; r = q - of_int n
      in if r < 1 / 2 then n else if 1 / 2 < r then n + 1 else if even n then n else n + 1)"

definition pad_left :: "char \<Rightarrow> nat \<Rightarrow> string \<Rightarrow> string" where
  "pad_left c width s = replicate (width - length s) c @ s"

text \<open>
  \<^verbatim>\<open>"%.<prec>f" % x\<close>: the decimal expansion rounded to \<open>prec\<close> places, ties to even.
  Python rounds the exact value of the binary64 in this way; the model rounds the rational
  that stands for it.
\<close>

fun fmt_f :: "nat \<Rightarrow> pyfloat \<Rightarrow> string" where
  "fmt_f prec (Fin q) =
     (let r = nat (round_half_even (\<bar>q\<bar> * 10 ^ prec))
      in (if q < 0 then ''-'' else '''') @ nat_str (r div 10 ^ prec) @
         (if prec = 0 then '''' else ''.'' @ pad_left CHR ''0'' prec (nat_str (r mod 10 ^ prec))))"
| "fmt_f prec PInf = ''inf''"
| "fmt_f prec NInf = ''-inf''"
| "fmt_f prec NaN = ''nan''"

text \<open>Zero padding goes between the sign and the digits.\<close>

definition zero_pad :: "nat \<Rightarrow> string \<Rightarrow> string" where
  "zero_pad width s =
     (case s of
        [] \<Rightarrow> replicate width CHR ''0''
      | c # r \<Rightarrow> if c = CHR ''-'' then c # pad_left CHR ''0'' (width - 1) r
                 else pad_left CHR ''0'' width s)"

definition fmt_d :: "int \<Rightarrow> string" where
  "fmt_d i = (if i < 0 then ''-'' else '''') @ nat_str (nat \<bar>i\<bar>)"

section \<open>The probe-result objects that \<^verbatim>\<open>main.py\<close> reads\<close>

text \<open>
  The classes of \<^verbatim>\<open>ffprobe3.py\<close> are read-only wrappers of a parsed dictionary: an
  object is its class and its \<^verbatim>\<open>parsed_json\<close>.  The attributes a constructor computes
  (\<^verbatim>\<open>codec_type\<close>, \<^verbatim>\<open>width\<close>, \<^verbatim>\<open>height\<close>, \<^verbatim>\<open>side_data_list\<close>, ...) are not stored
  in the model: each is the accessor call of the constructor on \<^verbatim>\<open>parsed_json\<close>, made
  again where a method reads the attribute.  With floats of unbounded range these calls
  raise nothing (in Python \<^verbatim>\<open>float(self.bit_rate_bps)\<close> raises \<^verbatim>\<open>OverflowError\<close> for an
  integer beyond the range of binary64, which the constructors do not catch).
\<close>

datatype stream_class =
  FFstream | FFattachmentStream | FFaudioStream | FFsubtitleStream | FFvideoStream

record ffstream =
  stream_class :: stream_class
  parsed_json :: pydict

record ffprobe =
  split_cmdline :: "string list"
  probe_json :: pydict
  format_json :: pydict
  streams :: "ffstream list"
  chapters :: "pydict list"

section \<open>\<^verbatim>\<open>ffprobe3.py\<close>\<close>

subsection \<open>More of Python\<close>

text \<open>A list comprehension \<^verbatim>\<open>[f(x) for x in xs]\<close> whose \<open>f\<close> can raise.\<close>

fun py_map :: "('a \<Rightarrow> py_error + 'b) \<Rightarrow> 'a list \<Rightarrow> py_error + 'b list" where
  "py_map f [] = Inr []"
| "py_map f (x # xs) =
     py_bind (f x) (\<lambda>y. py_bind (py_map f xs) (\<lambda>ys. Inr (y # ys)))"

text \<open>\<^verbatim>\<open>(a, b) = x\<close>\<close>

definition unpack2 :: "pyval \<Rightarrow> py_error + pyval \<times> pyval" where
  "unpack2 x =
     py_bind (py_iter x) (\<lambda>xs. case xs of [a, b] \<Rightarrow> Inr (a, b) | _ \<Rightarrow> Inl ValueError)"

text \<open>\<^verbatim>\<open>x <= 0\<close>\<close>

fun py_le_zero :: "pyval \<Rightarrow> py_error + bool" where
  "py_le_zero (VInt i) = Inr (i \<le> 0)"
| "py_le_zero (VBool b) = Inr (\<not> b)"
| "py_le_zero (VFloat x) = Inr (f_le x (Fin 0))"
| "py_le_zero _ = Inl TypeError"

text \<open>\<^verbatim>\<open>a / b\<close> on floats.\<close>

fun f_truediv :: "pyfloat \<Rightarrow> pyfloat \<Rightarrow> py_error + pyfloat" where
  "f_truediv a (Fin b) =
     (if b = 0 then Inl ZeroDivisionError
      else Inr (case a of
                  Fin q \<Rightarrow> Fin (q / b)
                | NaN \<Rightarrow> NaN
                | PInf \<Rightarrow> if 0 < b then PInf else NInf
                | NInf \<Rightarrow> if 0 < b then NInf else PInf))"
| "f_truediv a NaN = Inr NaN"
| "f_truediv (Fin q) b = Inr (Fin 0)"
| "f_truediv a b = Inr NaN"

text \<open>
  \<^verbatim>\<open>x % 360\<close>.  With a string on the left the operator is printf-style formatting, which
  is part of the interpreter and not of the repository: \<open>printf s\<close> is what
  \<^verbatim>\<open>s % 360\<close> gives, the formatted string or the exception.
\<close>

fun py_mod_360 :: "(string \<Rightarrow> py_error + string) \<Rightarrow> pyval \<Rightarrow> py_error + pyval" where
  "py_mod_360 printf (VInt i) = Inr (VInt (i mod 360))"
| "py_mod_360 printf (VBool b) = Inr (VInt (if b then 1 else 0))"
| "py_mod_360 printf (VFloat x) = Inr (VFloat (f_mod_const x 360))"
| "py_mod_360 printf (VStr s) = (case printf s of Inl e \<Rightarrow> Inl e | Inr t \<Rightarrow> Inr (VStr t))"
| "py_mod_360 printf _ = Inl TypeError"

text \<open>\<^verbatim>\<open>x in (90, 270)\<close>: equality with one of the two integers.\<close>

definition in_90_270 :: "pyval \<Rightarrow> bool" where
  "in_90_270 x = (x = VInt 90 \<or> x = VInt 270 \<or> x = VFloat (Fin 90) \<or> x = VFloat (Fin 270))"

text \<open>Whether a value can be a dictionary key.\<close>

fun py_hashable :: "pyval \<Rightarrow> bool" where
  "py_hashable (VList xs) = False"
| "py_hashable (VDict d) = False"
| "py_hashable (VTuple xs) = list_all py_hashable xs"
| "py_hashable _ = True"

subsection \<open>The accessors of \<^verbatim>\<open>ParsedJson\<close>\<close>

text \<open>
  Each accessor is a \<^verbatim>\<open>try\<close> block with the handler
  \<^verbatim>\<open>except Exception as e: return default\<close>; \<open>pj\<close> is \<^verbatim>\<open>self.parsed_json\<close>.
\<close>

definition get_as_float :: "pydict \<Rightarrow> string \<Rightarrow> pyval \<Rightarrow> py_error + pyval" where
  "get_as_float pj key dflt =
     try_except
       (py_bind (dict_getitem pj key) (\<lambda>v.
        py_bind (py_float v) (\<lambda>x. Inr (VFloat x))))
       dflt"

definition get_as_int :: "pydict \<Rightarrow> string \<Rightarrow> pyval \<Rightarrow> py_error + pyval" where
  "get_as_int pj key dflt =
     try_except
       (py_bind (dict_getitem pj key) (\<lambda>v.
        py_bind (py_int v) (\<lambda>i. Inr (VInt i))))
       dflt"

definition datasize_units :: "string list" where
  "datasize_units = ['''', ''k'', ''M'', ''G'', ''T'', ''P'', ''E'', ''Z'']"

text \<open>\<^verbatim>\<open>"%3.1f"\<close>: one decimal place, at least three characters.\<close>

definition fmt_3_1f :: "pyfloat \<Rightarrow> string" where
  "fmt_3_1f x = pad_left CHR '' '' 3 (fmt_f 1 x)"

text \<open>
  The loop \<^verbatim>\<open>for unit in ['', 'k', ..., 'Z']\<close> of \<^verbatim>\<open>get_datasize_as_human\<close> with the
  code after it, which is reached when no unit was small enough.
\<close>

fun datasize_loop :: "bool \<Rightarrow> rat \<Rightarrow> string \<Rightarrow> pyfloat \<Rightarrow> string list \<Rightarrow> string" where
  "datasize_loop use_base_10 divisor suffix num [] =
     (if \<not> use_base_10 then fmt_f 1 num @ '' '' @ ''Yi'' @ suffix
      else fmt_f 1 num @ '' '' @ ''Y'' @ suffix)"
| "datasize_loop use_base_10 divisor suffix num (unit # units) =
     (if f_less (f_abs num) (Fin divisor) then
        (if unit \<noteq> [] \<and> \<not> use_base_10 then fmt_3_1f num @ '' '' @ unit @ ''i'' @ suffix
         else fmt_3_1f num @ '' '' @ unit @ suffix)
      else datasize_loop use_base_10 divisor suffix (f_div_const num divisor) units)"

definition get_datasize_as_human ::
    "pydict \<Rightarrow> string \<Rightarrow> pyval \<Rightarrow> string \<Rightarrow> bool \<Rightarrow> py_error + pyval" where
  "get_datasize_as_human pj key dflt suffix use_base_10 =
     (let divisor = (if use_base_10 then 1000 else 1024)
      in try_except
           (py_bind (dict_getitem pj key) (\<lambda>v.
            py_bind (py_float v) (\<lambda>num.
              Inr (VStr (datasize_loop use_base_10 divisor suffix num datasize_units)))))
           dflt)"

definition get_duration_as_human :: "pydict \<Rightarrow> pyval \<Rightarrow> py_error + pyval" where
  "get_duration_as_human pj dflt =
     try_except
       (py_bind (dict_getitem pj ''duration'') (\<lambda>v.
        py_bind (py_float v) (\<lambda>duration_secs0.
          let duration_mins0 = f_floordiv_const duration_secs0 60;
              duration_secs = f_sub duration_secs0 (f_mul_const duration_mins0 60);
              duration_hours = f_floordiv_const duration_mins0 60;
              duration_mins = f_sub duration_mins0 (f_mul_const duration_hours 60)
          in py_bind (int_of_float duration_hours) (\<lambda>h.
             py_bind (int_of_float duration_mins) (\<lambda>m.
               Inr (VStr (zero_pad 2 (fmt_d h) @ '':'' @ zero_pad 2 (fmt_d m) @ '':'' @
                          zero_pad 5 (fmt_f 2 duration_secs))))))))
       dflt"

subsection \<open>The frame rate of a video stream\<close>

text \<open>
  \<^verbatim>\<open>re.match("^(-?[0-9]+)/(-?[0-9]+)$", frame_rate).groups()\<close>.  A group is an optional
  minus sign and the longest run of ASCII digits; in Python \<^verbatim>\<open>$\<close> matches at the end of
  the string and also just before a newline that ends the string.
\<close>

definition split_int_prefix :: "string \<Rightarrow> (string \<times> string) option" where
  "split_int_prefix s =
     (let (sgn, r) = (case s of [] \<Rightarrow> ([], []) | c # t \<Rightarrow> if c = CHR ''-'' then ([c], t) else ([], s))
      in if takeWhile is_digit r = [] then None
         else Some (sgn @ takeWhile is_digit r, dropWhile is_digit r))"

definition match_frame_rate :: "string \<Rightarrow> (string \<times> string) option" where
  "match_frame_rate s =
     (case split_int_prefix s of
        None \<Rightarrow> None
      | Some (n, r1) \<Rightarrow>
          (case r1 of
             [] \<Rightarrow> None
           | c # r2 \<Rightarrow>
               if c \<noteq> CHR ''/'' then None
               else (case split_int_prefix r2 of
                       None \<Rightarrow> None
                     | Some (d, r3) \<Rightarrow> if r3 = [] \<or> r3 = [CHR 0x0A] then Some (n, d) else None)))"

text \<open>
  A value that is not a string makes \<^verbatim>\<open>re.match\<close> raise \<^verbatim>\<open>TypeError\<close>; a string that
  does not match gives \<^verbatim>\<open>None\<close>, which has no \<^verbatim>\<open>groups\<close>.
\<close>

fun re_match_groups :: "pyval \<Rightarrow> py_error + string \<times> string" where
  "re_match_groups (VStr s) =
     (case match_frame_rate s of None \<Rightarrow> Inl AttributeError | Some g \<Rightarrow> Inr g)"
| "re_match_groups _ = Inl TypeError"

definition get_frame_rate_as_ratio :: "pydict \<Rightarrow> string \<Rightarrow> pyval \<Rightarrow> py_error + pyval" where
  "get_frame_rate_as_ratio pj key dflt =
     try_except
       (py_bind (dict_getitem pj key) (\<lambda>frame_rate.
        py_bind (re_match_groups frame_rate) (\<lambda>(n, d).
        py_bind (py_int (VStr n)) (\<lambda>ni.
        py_bind (py_int (VStr d)) (\<lambda>di.
          Inr (VTuple [VInt ni, VInt di]))))))
       dflt"

definition get_frame_rate_as_float :: "pydict \<Rightarrow> string \<Rightarrow> pyval \<Rightarrow> py_error + pyval" where
  "get_frame_rate_as_float pj key dflt =
     try_except
       (py_bind (get_frame_rate_as_ratio pj key VNone) (\<lambda>ratio.
        py_bind (unpack2 ratio) (\<lambda>(n, d).
        py_bind (py_le_zero n) (\<lambda>n_le.
        py_bind (if n_le then Inr True else py_le_zero d) (\<lambda>n_or_d_le.
          if n_or_d_le then Inr dflt
          else
            py_bind (py_float n) (\<lambda>fn.
            py_bind (py_float d) (\<lambda>fd.
            py_bind (f_truediv fn fd) (\<lambda>q. Inr (VFloat q)))))))))
       dflt"

definition get_avg_frame_rate :: "pydict \<Rightarrow> pyval \<Rightarrow> py_error + pyval" where
  "get_avg_frame_rate pj dflt = get_frame_rate_as_float pj ''avg_frame_rate'' dflt"

definition get_r_frame_rate :: "pydict \<Rightarrow> pyval \<Rightarrow> py_error + pyval" where
  "get_r_frame_rate pj dflt = get_frame_rate_as_float pj ''r_frame_rate'' dflt"

subsection \<open>The frame shape of a video stream\<close>

text \<open>
  The attributes \<^verbatim>\<open>self.width\<close>, \<^verbatim>\<open>self.height\<close> and \<^verbatim>\<open>self.side_data_list\<close> are
  what \<^verbatim>\<open>FFvideoStream.__init__\<close> computed from \<^verbatim>\<open>parsed_json\<close>:
  \<^verbatim>\<open>get_as_int('width')\<close>, \<^verbatim>\<open>get_as_int('height')\<close> and \<^verbatim>\<open>get('side_data_list')\<close>.
\<close>

definition get_frame_rotation :: "pydict \<Rightarrow> pyval \<Rightarrow> py_error + pyval" where
  "get_frame_rotation pj dflt =
     try_except
       (py_bind (py_iter (dict_get pj ''side_data_list'' VNone)) (\<lambda>side_data.
        py_bind (py_map (\<lambda>d. getitem d ''rotation'') side_data) (\<lambda>rotations.
          getitem0 (VList rotations))))
       dflt"

definition get_frame_shape ::
    "(string \<Rightarrow> py_error + string) \<Rightarrow> pydict \<Rightarrow> pyval \<Rightarrow> py_error + pyval" where
  "get_frame_shape printf pj dflt =
     try_except
       (py_bind (get_as_int pj ''height'' VNone) (\<lambda>self_height.
        py_bind (py_int self_height) (\<lambda>height.
        py_bind (get_as_int pj ''width'' VNone) (\<lambda>self_width.
        py_bind (py_int self_width) (\<lambda>width.
        py_bind (get_frame_rotation pj (VInt 0)) (\<lambda>rotation.
        py_bind (py_mod_360 printf rotation) (\<lambda>r.
          if in_90_270 r then Inr (VTuple [VInt height, VInt width])
          else Inr (VTuple [VInt width, VInt height]))))))))
       dflt"

subsection \<open>Constructing streams\<close>

definition ParsedJson_init :: "pyval \<Rightarrow> py_error + pydict" where
  "ParsedJson_init parsed =
     (case parsed of
        VDict d \<Rightarrow> Inr d
      | _ \<Rightarrow> Inl (FFprobeInvalidArgumentError ''parsed_json''
                   ''Supplied parsed JSON is not a dictionary'' parsed))"

definition FFstream_init :: "pyval \<Rightarrow> py_error + ffstream" where
  "FFstream_init parsed =
     py_bind (ParsedJson_init parsed) (\<lambda>d. Inr \<lparr> stream_class = FFstream, parsed_json = d \<rparr>)"

text \<open>
  The constructor of a derived class: the base constructor, then the check
  \<^verbatim>\<open>if self.codec_type != '<required>': raise FFprobeStreamSubclassError(...)\<close>, where
  \<^verbatim>\<open>self.codec_type\<close> is \<^verbatim>\<open>self.get('codec_type')\<close>.
\<close>

definition subclass_init :: "stream_class \<Rightarrow> string \<Rightarrow> string \<Rightarrow> pyval \<Rightarrow> py_error + ffstream" where
  "subclass_init cls class_name required parsed =
     py_bind (FFstream_init parsed) (\<lambda>self.
       if dict_get (parsed_json self) ''codec_type'' VNone \<noteq> VStr required
       then Inl (FFprobeStreamSubclassError class_name
                   (dict_get (parsed_json self) ''codec_type'' VNone) required)
       else Inr (self\<lparr>stream_class := cls\<rparr>))"

definition FFattachmentStream_init :: "pyval \<Rightarrow> py_error + ffstream" where
  "FFattachmentStream_init = subclass_init FFattachmentStream ''FFattachmentStream'' ''attachment''"

definition FFaudioStream_init :: "pyval \<Rightarrow> py_error + ffstream" where
  "FFaudioStream_init = subclass_init FFaudioStream ''FFaudioStream'' ''audio''"

definition FFsubtitleStream_init :: "pyval \<Rightarrow> py_error + ffstream" where
  "FFsubtitleStream_init = subclass_init FFsubtitleStream ''FFsubtitleStream'' ''subtitle''"

definition FFvideoStream_init :: "pyval \<Rightarrow> py_error + ffstream" where
  "FFvideoStream_init = subclass_init FFvideoStream ''FFvideoStream'' ''video''"

definition KNOWN_FFSTREAM_SUBCLASSES :: "(string \<times> (pyval \<Rightarrow> py_error + ffstream)) list" where
  "KNOWN_FFSTREAM_SUBCLASSES =
     [(''attachment'', FFattachmentStream_init), (''audio'', FFaudioStream_init),
      (''subtitle'', FFsubtitleStream_init), (''video'', FFvideoStream_init)]"

text \<open>
  \<^verbatim>\<open>_KNOWN_FFSTREAM_SUBCLASSES.get(codec_type)\<close>: the key is hashed first, which raises
  \<^verbatim>\<open>TypeError\<close> for a list or a dictionary; only a string can equal a key of the table.
\<close>

definition known_subclass :: "pyval \<Rightarrow> py_error + (pyval \<Rightarrow> py_error + ffstream) option" where
  "known_subclass codec_type =
     (if \<not> py_hashable codec_type then Inl TypeError
      else case codec_type of
             VStr s \<Rightarrow> Inr (map_of KNOWN_FFSTREAM_SUBCLASSES s)
           | _ \<Rightarrow> Inr None)"

text \<open>
  \<^verbatim>\<open>_construct_ffstream_subclass\<close>.  \<^verbatim>\<open>parsed_json.get\<close> exists for a dictionary only.
\<close>

definition construct_ffstream_subclass :: "pyval \<Rightarrow> py_error + ffstream" where
  "construct_ffstream_subclass parsed =
     (case parsed of
        VDict d \<Rightarrow>
          (let codec_type = dict_get d ''codec_type'' VNone
           in if codec_type \<noteq> VNone then
                py_bind (known_subclass codec_type) (\<lambda>constructor.
                  case constructor of
                    Some c \<Rightarrow> c parsed
                  | None \<Rightarrow> FFstream_init parsed)
              else FFstream_init parsed)
      | _ \<Rightarrow> Inl AttributeError)"

subsection \<open>\<^verbatim>\<open>FFprobe\<close> and \<^verbatim>\<open>probe\<close>\<close>

definition FFprobe_init :: "string list \<Rightarrow> pyval \<Rightarrow> py_error + ffprobe" where
  "FFprobe_init cmdline parsed =
     (if length cmdline < 2
      then Inl (FFprobeInvalidArgumentError ''split_cmdline''
                  ''Supplied split command-line has too few elements''
                  (VList (map VStr cmdline)))
      else
        py_bind (ParsedJson_init parsed) (\<lambda>pj.
        py_bind (ParsedJson_init (dict_get pj ''format'' (VDict []))) (\<lambda>fmt.
        py_bind (py_iter (dict_get pj ''streams'' (VList []))) (\<lambda>ss.
        py_bind (py_map construct_ffstream_subclass ss) (\<lambda>strs.
        py_bind (py_iter (dict_get pj ''chapters'' (VList []))) (\<lambda>cs.
        py_bind (py_map ParsedJson_init cs) (\<lambda>chs.
          Inr \<lparr> split_cmdline = cmdline, probe_json = pj, format_json = fmt,
                streams = strs, chapters = chs \<rparr>)))))))"

definition SPLIT_COMMAND_LINE :: "string list" where
  "SPLIT_COMMAND_LINE = [''ffprobe'', ''-v'', ''error'', ''-print_format'', ''json'',
     ''-show_chapters'', ''-show_format'', ''-show_streams'']"

text \<open>\<^verbatim>\<open>_URI_SCHEME.match(media_filename)\<close> for the pattern \<^verbatim>\<open>^[a-z][a-z0-9-]*://\<close>.\<close>

definition URI_SCHEME_match :: "string \<Rightarrow> bool" where
  "URI_SCHEME_match s =
     (case s of
        [] \<Rightarrow> False
      | c # r \<Rightarrow>
          c \<in> set ''abcdefghijklmnopqrstuvwxyz'' \<and>
          take 3 (dropWhile (\<lambda>x. x \<in> set ''abcdefghijklmnopqrstuvwxyz0123456789-'') r) = ''://'')"

text \<open>
  The world outside \<^verbatim>\<open>probe\<close>: the file system, \<^verbatim>\<open>subprocess.Popen\<close> with the
  child process it starts, and \<^verbatim>\<open>json.loads\<close> (\<open>None\<close> is \<^verbatim>\<open>JSONDecodeError\<close>).
  \<open>first_communicate\<close> is \<^verbatim>\<open>proc.communicate(timeout=...)\<close>, \<open>None\<close> when it raises
  \<^verbatim>\<open>TimeoutExpired\<close>; the process is then killed and \<open>killed_communicate\<close> is the second
  \<^verbatim>\<open>proc.communicate()\<close>.
\<close>

record process =
  first_communicate :: "pyval \<Rightarrow> (string \<times> string) option"
  returncode :: int
  killed_communicate :: "string \<times> string"
  killed_returncode :: int

datatype popen_result =
    PopenFileNotFoundError
  | PopenOSError
  | PopenValueError
  | PopenSubprocessError
  | Started process

record probe_env =
  isfile :: "string \<Rightarrow> bool"
  popen :: "string list \<Rightarrow> popen_result"
  json_loads :: "string \<Rightarrow> pyval option"

text \<open>
  The checks of \<^verbatim>\<open>communicate_timeout\<close>.  \<^verbatim>\<open>bool\<close> is a subclass of \<^verbatim>\<open>int\<close>, and a
  comparison with a NaN is false.
\<close>

fun check_timeout :: "pyval \<Rightarrow> py_error option" where
  "check_timeout VNone = None"
| "check_timeout (VInt i) =
     (if i \<le> 0 then Some (FFprobeInvalidArgumentError ''communicate_timeout''
                           ''Supplied timeout is non-None and non-positive'' (VInt i))
      else None)"
| "check_timeout (VBool b) =
     (if \<not> b then Some (FFprobeInvalidArgumentError ''communicate_timeout''
                          ''Supplied timeout is non-None and non-positive'' (VBool b))
      else None)"
| "check_timeout (VFloat x) =
     (if f_le x (Fin 0) then Some (FFprobeInvalidArgumentError ''communicate_timeout''
                                  ''Supplied timeout is non-None and non-positive'' (VFloat x))
      else None)"
| "check_timeout v = Some (FFprobeInvalidArgumentError ''communicate_timeout''
                            ''Supplied timeout is non-None and non-numeric'' v)"

text \<open>
  What \<^verbatim>\<open>probe\<close> did: the command line it gave to \<^verbatim>\<open>subprocess.Popen\<close>, if it got that
  far, and what it returned or raised.
\<close>

record probe_run =
  spawned :: "string list option"
  returned :: "py_error + ffprobe"

text \<open>
  \<^verbatim>\<open>try: (outs, errs) = proc.communicate(timeout=communicate_timeout)\<close>
  \<^verbatim>\<open>except subprocess.TimeoutExpired: proc.kill(); (outs, errs) = proc.communicate()\<close>,
  with the \<^verbatim>\<open>proc.returncode\<close> read afterwards.
\<close>

definition communicate :: "process \<Rightarrow> pyval \<Rightarrow> (string \<times> string) \<times> int" where
  "communicate proc communicate_timeout =
     (case first_communicate proc communicate_timeout of
        Some oe \<Rightarrow> (oe, returncode proc)
      | None \<Rightarrow> (killed_communicate proc, killed_returncode proc))"

definition run_process :: "probe_env \<Rightarrow> string list \<Rightarrow> pyval \<Rightarrow> process \<Rightarrow> py_error + ffprobe" where
  "run_process env cmdline communicate_timeout proc =
     (let ((outs, errs), exit_status) = communicate proc communicate_timeout
      in case json_loads env outs of
           None \<Rightarrow> Inl (FFprobeJsonParseError ''json.decoder.JSONDecodeError'')
         | Some parsed \<Rightarrow>
             if exit_status \<noteq> 0 then Inl (FFprobeSubprocessError cmdline exit_status errs)
             else FFprobe_init cmdline parsed)"

definition probe :: "probe_env \<Rightarrow> string \<Rightarrow> pyval \<Rightarrow> string option \<Rightarrow> bool \<Rightarrow> probe_run" where
  "probe env media_filename communicate_timeout ffprobe_cmd_override verify_local_mediafile =
     (case (case ffprobe_cmd_override of
              None \<Rightarrow> Inr SPLIT_COMMAND_LINE
            | Some f \<Rightarrow> if \<not> isfile env f then Inl (FFprobeOverrideFileError f)
                        else Inr (f # tl SPLIT_COMMAND_LINE)) of
        Inl e \<Rightarrow> \<lparr> spawned = None, returned = Inl e \<rparr>
      | Inr cmd \<Rightarrow>
     (case check_timeout communicate_timeout of
        Some e \<Rightarrow> \<lparr> spawned = None, returned = Inl e \<rparr>
      | None \<Rightarrow>
          if verify_local_mediafile \<and> \<not> URI_SCHEME_match media_filename \<and>
             \<not> isfile env media_filename
          then \<lparr> spawned = None, returned = Inl (FFprobeMediaFileError media_filename) \<rparr>
          else
            \<lparr> spawned = Some (cmd @ [media_filename]),
              returned =
                (case popen env (cmd @ [media_filename]) of
                   PopenFileNotFoundError \<Rightarrow> Inl (FFprobeExecutableError (hd cmd))
                 | PopenOSError \<Rightarrow> Inl (FFprobePopenError ''OSError'')
                 | PopenValueError \<Rightarrow> Inl (FFprobePopenError ''ValueError'')
                 | PopenSubprocessError \<Rightarrow> Inl (FFprobePopenError ''subprocess.SubprocessError'')
                 | Started proc \<Rightarrow>
                     run_process env (cmd @ [media_filename]) communicate_timeout proc) \<rparr>))"

section \<open>\<^verbatim>\<open>main.py\<close>\<close>

record SongMetadata =
  Artist :: pyval
  Title :: pyval
  Year :: pyval
  ISRC :: pyval
  AlbumArtist :: pyval
  FilePath :: string

record ISRCMetadata =
  duration :: pyval
  recordingVersion :: pyval
  isValidIsrc :: pyval
  recordingYear :: pyval
  recordingArtistName :: pyval
  isExplicit :: pyval
  isrc :: pyval
  isrcFailureCode :: pyval
  recordingTitle :: pyval
  id' :: pyval

definition search_payload :: pyval where
  "search_payload = VDict [
     (''searchFields'', VDict [
        (''recordingArtistName'', VDict [(''value'', VStr '''')]),
        (''recordingTitle'', VDict [(''value'', VStr '''')]),
        (''releaseName'', VDict [(''value'', VStr '''')]),
        (''releaseYear'', VStr ''''),
        (''recordingVersion'', VDict [(''value'', VStr '''')]),
        (''recordingYear'', VStr ''''),
        (''recordingType'', VStr '''')]),
     (''start'', VInt 0),
     (''number'', VInt 100),
     (''showReleases'', VBool False)]"

subsection \<open>GetTrackMetaData\<close>

text \<open>\<^verbatim>\<open>try: x = tags[key]  except: x = dflt\<close>\<close>

definition tag_or :: "pyval \<Rightarrow> string \<Rightarrow> pyval \<Rightarrow> pyval" where
  "tag_or tags k dflt = (case getitem tags k of Inl e \<Rightarrow> dflt | Inr v \<Rightarrow> v)"

text \<open>
  The loop \<^verbatim>\<open>for s in metadata.streams\<close>: the first stream that is an instance of
  \<^verbatim>\<open>FFaudioStream\<close> decides the result; when the loop ends without one the function
  logs and returns \<^verbatim>\<open>None\<close>.  (\<^verbatim>\<open>ffprobePython.FFaudioStream\<close> is taken to be the
  class of \<^verbatim>\<open>ffprobe3.py\<close>: the \<^verbatim>\<open>__init__.py\<close> of the package, which would export
  it, is not among the sources.)
\<close>

fun GetTrackMetaData_loop :: "ffstream list \<Rightarrow> string \<Rightarrow> SongMetadata option" where
  "GetTrackMetaData_loop [] song_file_path = None"
| "GetTrackMetaData_loop (s # ss) song_file_path =
     (if stream_class s = FFaudioStream then
        (case dict_getitem (parsed_json s) ''tags'' of
           Inl e \<Rightarrow> None
         | Inr tags \<Rightarrow>
             Some \<lparr> Artist = tag_or tags ''ARTIST'' (VStr ''''),
                    Title = tag_or tags ''TITLE'' (VStr ''''),
                    Year = tag_or tags ''DATE'' (VStr ''''),
                    ISRC = tag_or tags ''ISRC'' (VStr ''error''),
                    AlbumArtist = tag_or tags ''album_artist'' (VStr ''''),
                    FilePath = song_file_path \<rparr>)
      else GetTrackMetaData_loop ss song_file_path)"

text \<open>
  The first argument is what \<^verbatim>\<open>ffprobe3.probe(song_file_path)\<close> did: it raised, or it
  returned an \<^verbatim>\<open>FFprobe\<close> object.
\<close>

definition GetTrackMetaData :: "py_error + ffprobe \<Rightarrow> string \<Rightarrow> SongMetadata option" where
  "GetTrackMetaData probed song_file_path =
     (case probed of
        Inl e \<Rightarrow> None
      | Inr metadata \<Rightarrow> GetTrackMetaData_loop (streams metadata) song_file_path)"

subsection \<open>The catalog client\<close>

text \<open>
  What \<^verbatim>\<open>s.post(RequestUrl, data=...)\<close> followed by \<^verbatim>\<open>json.loads(r.text)\<close> does
  (\<^verbatim>\<open>requests\<close> and \<^verbatim>\<open>json\<close> are libraries, not code of the repository): the request
  raises, or the body is not JSON, or the body parses to a value.
\<close>

datatype http_reply = RequestRaised | ReplyNotJson | ReplyJson pyval

definition ISRCMetadata_fields :: "string list" where
  "ISRCMetadata_fields = [''duration'', ''recordingVersion'', ''isValidIsrc'',
     ''recordingYear'', ''recordingArtistName'', ''isExplicit'', ''isrc'',
     ''isrcFailureCode'', ''recordingTitle'', ''id'']"

text \<open>
  \<^verbatim>\<open>ISRCMetadata(**x)\<close>: the dataclass constructor takes exactly its ten fields as
  keywords; a missing or an unexpected keyword, or an \<^verbatim>\<open>x\<close> that is not a mapping, is a
  \<^verbatim>\<open>TypeError\<close>.
\<close>

fun ISRCMetadata_init :: "pyval \<Rightarrow> py_error + ISRCMetadata" where
  "ISRCMetadata_init (VDict d) =
     (if set (map fst d) = set ISRCMetadata_fields then
        Inr \<lparr> duration = dict_get d ''duration'' VNone,
              recordingVersion = dict_get d ''recordingVersion'' VNone,
              isValidIsrc = dict_get d ''isValidIsrc'' VNone,
              recordingYear = dict_get d ''recordingYear'' VNone,
              recordingArtistName = dict_get d ''recordingArtistName'' VNone,
              isExplicit = dict_get d ''isExplicit'' VNone,
              isrc = dict_get d ''isrc'' VNone,
              isrcFailureCode = dict_get d ''isrcFailureCode'' VNone,
              recordingTitle = dict_get d ''recordingTitle'' VNone,
              id' = dict_get d ''id'' VNone \<rparr>
      else Inl TypeError)"
| "ISRCMetadata_init _ = Inl TypeError"

text \<open>
  \<^verbatim>\<open>GetISRCMetadata\<close>: \<^verbatim>\<open>Inl\<close> is an exception that leaves the function,
  \<^verbatim>\<open>Inr None\<close> the logged failure that returns \<^verbatim>\<open>None\<close>.
\<close>

definition GetISRCMetadata :: "SongMetadata \<Rightarrow> http_reply \<Rightarrow> py_error + ISRCMetadata option" where
  "GetISRCMetadata song reply =
     (case reply of
        RequestRaised \<Rightarrow> Inl RequestException
      | ReplyNotJson \<Rightarrow> Inr None
      | ReplyJson json_obj \<Rightarrow>
          py_bind (getitem json_obj ''recordings'') (\<lambda>recordings.
          py_bind (py_len recordings) (\<lambda>n.
            if n = 0 then Inr None
            else
              py_bind (getitem0 recordings) (\<lambda>first.
              py_bind (ISRCMetadata_init first) (\<lambda>metadata.
                Inr (Some metadata))))))"

text \<open>
  The three assignments of \<^verbatim>\<open>DoesExplicitVersionExist\<close> to the module-level
  \<^verbatim>\<open>search_payload\<close>.  The nested dictionaries are mutated in place; in the value model
  the changed inner dictionary is stored back under its key.
\<close>

definition setitem2 :: "pyval \<Rightarrow> string \<Rightarrow> string \<Rightarrow> pyval \<Rightarrow> py_error + pyval" where
  "setitem2 p k1 k2 v =
     py_bind (getitem p k1) (\<lambda>inner.
     py_bind (setitem inner k2 v) (\<lambda>inner'.
       setitem p k1 inner'))"

definition setitem3 :: "pyval \<Rightarrow> string \<Rightarrow> string \<Rightarrow> string \<Rightarrow> pyval \<Rightarrow> py_error + pyval" where
  "setitem3 p k1 k2 k3 v =
     py_bind (getitem p k1) (\<lambda>inner.
     py_bind (setitem2 inner k2 k3 v) (\<lambda>inner'.
       setitem p k1 inner'))"

text \<open>
  The scan \<^verbatim>\<open>for rec in dump["recordings"]: if rec["isExplicit"] == "True": explict = True\<close>.
\<close>

fun explicit_scan :: "pyval list \<Rightarrow> bool \<Rightarrow> py_error + bool" where
  "explicit_scan [] explict = Inr explict"
| "explicit_scan (rec # recs) explict =
     py_bind (getitem rec ''isExplicit'') (\<lambda>v.
       explicit_scan recs (if v = VStr ''True'' then True else explict))"

text \<open>
  \<^verbatim>\<open>DoesExplicitVersionExist\<close> takes the current value of the global
  \<^verbatim>\<open>search_payload\<close> and returns its value after the call, the dictionary that was
  handed to \<^verbatim>\<open>json.dumps\<close> as the request body (when execution got that far), and the
  result or the exception.
\<close>

record explicit_call =
  payload_after :: pyval
  request_body :: "pyval option"
  outcome :: "py_error + bool"

definition DoesExplicitVersionExist :: "pyval \<Rightarrow> ISRCMetadata \<Rightarrow> http_reply \<Rightarrow> explicit_call" where
  "DoesExplicitVersionExist payload song reply =
     (case setitem3 payload ''searchFields'' ''recordingArtistName'' ''value''
             (recordingArtistName song) of
        Inl e \<Rightarrow> \<lparr> payload_after = payload, request_body = None, outcome = Inl e \<rparr>
      | Inr p1 \<Rightarrow>
     (case setitem3 p1 ''searchFields'' ''recordingTitle'' ''value'' (recordingTitle song) of
        Inl e \<Rightarrow> \<lparr> payload_after = p1, request_body = None, outcome = Inl e \<rparr>
      | Inr p2 \<Rightarrow>
     (case setitem2 p2 ''searchFields'' ''recordingYear'' (recordingYear song) of
        Inl e \<Rightarrow> \<lparr> payload_after = p2, request_body = None, outcome = Inl e \<rparr>
      | Inr p3 \<Rightarrow>
          \<lparr> payload_after = p3, request_body = Some p3,
            outcome =
              (case reply of
                 RequestRaised \<Rightarrow> Inl RequestException
               | ReplyNotJson \<Rightarrow> Inr False
               | ReplyJson dump \<Rightarrow>
                   py_bind (getitem dump ''recordings'') (\<lambda>recordings.
                   py_bind (py_iter recordings) (\<lambda>recs.
                     explicit_scan recs False))) \<rparr>)))"

subsection \<open>The store\<close>

text \<open>
  Modelled from the spec: the schema of table \<^verbatim>\<open>music\<close> and the SQLite engine are not
  among the sources.  The table is "a single table keyed by ISRC with columns for every
  CatalogRecord field plus explicit-exists flag and file path; queried by exact ISRC match,
  appended via positional insert", with "no uniqueness constraint beyond caller-side
  check-then-insert".  A row is the eleven values of the \<^verbatim>\<open>INSERT\<close> in their order; column
  \<^verbatim>\<open>isrc\<close> is the first one.  The condition \<^verbatim>\<open>isrc = ?\<close> holds when the stored value
  and the bound one are the same value and not SQL's \<^verbatim>\<open>NULL\<close>, which equals nothing and
  is how \<^verbatim>\<open>None\<close> is bound; values of different Python types are different keys (what a
  column affinity or collation of the schema would identify is not modelled).  A parameter
  that \<^verbatim>\<open>sqlite3\<close> cannot bind (a list, a tuple, a dictionary, an integer outside 64
  bits) makes \<^verbatim>\<open>execute\<close> raise.
\<close>

definition sql_eq :: "pyval \<Rightarrow> pyval \<Rightarrow> bool" where
  "sql_eq a b = (a \<noteq> VNone \<and> b \<noteq> VNone \<and> a = b)"

record music_row =
  row_isrc :: pyval
  row_recordingTitle :: pyval
  row_isrcFailureCode :: pyval
  row_recordingArtistName :: pyval
  row_recordingYear :: pyval
  row_isValidIsrc :: pyval
  row_recordingVersion :: pyval
  row_duration :: pyval
  row_isExplicit :: pyval
  row_doesExplicitExist :: pyval
  row_FilePath :: pyval

fun db_bindable :: "pyval \<Rightarrow> bool" where
  "db_bindable VNone = True"
| "db_bindable (VBool b) = True"
| "db_bindable (VInt i) = (- (2 ^ 63) \<le> i \<and> i < 2 ^ 63)"
| "db_bindable (VFloat x) = True"
| "db_bindable (VStr s) = True"
| "db_bindable _ = False"

definition db_select_isrc :: "music_row list \<Rightarrow> pyval \<Rightarrow> py_error + music_row list" where
  "db_select_isrc table key =
     (if db_bindable key then Inr (filter (\<lambda>r. sql_eq (row_isrc r) key) table)
      else Inl SqliteError)"

definition row_values :: "music_row \<Rightarrow> pyval list" where
  "row_values r = [row_isrc r, row_recordingTitle r, row_isrcFailureCode r,
     row_recordingArtistName r, row_recordingYear r, row_isValidIsrc r,
     row_recordingVersion r, row_duration r, row_isExplicit r, row_doesExplicitExist r,
     row_FilePath r]"

definition db_insert :: "music_row list \<Rightarrow> music_row \<Rightarrow> py_error + music_row list" where
  "db_insert table r =
     (if list_all db_bindable (row_values r) then Inr (table @ [r]) else Inl SqliteError)"

subsection \<open>The loop of \<^verbatim>\<open>__main__\<close>\<close>

text \<open>
  What the outside world does for one file: the result of probing it and the replies of the
  catalog to the two requests.
\<close>

record music_file =
  path :: string
  probed :: "py_error + ffprobe"
  isrc_reply :: http_reply
  search_reply :: http_reply

record run_state =
  store :: "music_row list"
  payload :: pyval

definition py_str_bool :: "bool \<Rightarrow> pyval" where
  "py_str_bool b = VStr (if b then ''True'' else ''False'')"

text \<open>
  The explicit-version resolution of the loop body: a track flagged explicit needs no
  search.
\<close>

definition resolve_explicit :: "run_state \<Rightarrow> ISRCMetadata \<Rightarrow> http_reply \<Rightarrow> (py_error + bool) \<times> run_state" where
  "resolve_explicit st isrcMetadata reply =
     (if isExplicit isrcMetadata = VStr ''True'' then (Inr True, st)
      else
        (let c = DoesExplicitVersionExist (payload st) isrcMetadata reply
         in (outcome c, st\<lparr>payload := payload_after c\<rparr>)))"

text \<open>The eleven values of the \<^verbatim>\<open>INSERT\<close>, in their order.\<close>

definition inserted_row :: "SongMetadata \<Rightarrow> ISRCMetadata \<Rightarrow> bool \<Rightarrow> music_row" where
  "inserted_row data isrcMetadata doesExplicitExist =
     \<lparr> row_isrc = ISRC data,
       row_recordingTitle = recordingTitle isrcMetadata,
       row_isrcFailureCode = isrcFailureCode isrcMetadata,
       row_recordingArtistName = recordingArtistName isrcMetadata,
       row_recordingYear = recordingYear isrcMetadata,
       row_isValidIsrc = isValidIsrc isrcMetadata,
       row_recordingVersion = recordingVersion isrcMetadata,
       row_duration = duration isrcMetadata,
       row_isExplicit = isExplicit isrcMetadata,
       row_doesExplicitExist = py_str_bool doesExplicitExist,
       row_FilePath = VStr (FilePath data) \<rparr>"

text \<open>
  One iteration of the loop.  The first component is the exception that leaves the
  \<^verbatim>\<open>for\<close> loop, if any; \<^verbatim>\<open>(None, st)\<close> is \<^verbatim>\<open>continue\<close> or the normal end of the body.
\<close>

definition process_song :: "run_state \<Rightarrow> music_file \<Rightarrow> py_error option \<times> run_state" where
  "process_song st song =
     (case GetTrackMetaData (probed song) (path song) of
        None \<Rightarrow> (None, st)
      | Some data \<Rightarrow>
     (case db_select_isrc (store st) (ISRC data) of
        Inl e \<Rightarrow> (Some e, st)
      | Inr rows \<Rightarrow>
          if length rows \<noteq> 0 then (None, st)
          else
     (case GetISRCMetadata data (isrc_reply song) of
        Inl e \<Rightarrow> (Some e, st)
      | Inr None \<Rightarrow> (None, st)
      | Inr (Some isrcMetadata) \<Rightarrow>
     (case resolve_explicit st isrcMetadata (search_reply song) of
        (Inl e, st1) \<Rightarrow> (Some e, st1)
      | (Inr doesExplicitExist, st1) \<Rightarrow>
     (case db_insert (store st1) (inserted_row data isrcMetadata doesExplicitExist) of
        Inl e \<Rightarrow> (Some e, st1)
      | Inr table \<Rightarrow> (None, st1\<lparr>store := table\<rparr>))))))"

text \<open>
  \<^verbatim>\<open>try: for song in song_paths: ...  except Exception as e: print(e)\<close>: an exception
  ends the loop with the state reached so far.
\<close>

fun main_loop :: "run_state \<Rightarrow> music_file list \<Rightarrow> py_error option \<times> run_state" where
  "main_loop st [] = (None, st)"
| "main_loop st (song # songs) =
     (case process_song st song of
        (Some e, st') \<Rightarrow> (Some e, st')
      | (None, st') \<Rightarrow> main_loop st' songs)"

text \<open>At most one row per ISRC: no two rows have the same key (a \<^verbatim>\<open>NULL\<close> is no key).\<close>

definition isrc_unique :: "music_row list \<Rightarrow> bool" where
  "isrc_unique table = distinct (filter (\<lambda>k. k \<noteq> VNone) (map row_isrc table))"

text \<open>Rows that \<^verbatim>\<open>sqlite3\<close> can have inserted: each value is one it binds.\<close>

definition storable :: "music_row list \<Rightarrow> bool" where
  "storable table = list_all (\<lambda>r. list_all db_bindable (row_values r)) table"

subsection \<open>A concrete run\<close>

definition example_recording :: pyval where
  "example_recording = VDict [
     (''duration'', VStr ''215''), (''recordingVersion'', VStr ''''),
     (''isValidIsrc'', VStr ''True''), (''recordingYear'', VStr ''2020''),
     (''recordingArtistName'', VStr ''A''), (''isExplicit'', VStr ''True''),
     (''isrc'', VStr ''X1''), (''isrcFailureCode'', VStr ''''),
     (''recordingTitle'', VStr ''T''), (''id'', VStr ''7'')]"

definition example_stream :: ffstream where
  "example_stream = \<lparr> stream_class = FFaudioStream,
     parsed_json = [(''codec_type'', VStr ''audio''),
       (''tags'', VDict [(''ARTIST'', VStr ''A''), (''TITLE'', VStr ''T''),
          (''DATE'', VStr ''2020''), (''ISRC'', VStr ''X1'')])] \<rparr>"

definition example_song :: music_file where
  "example_song = \<lparr> path = ''a.mp3'',
     probed = Inr \<lparr> split_cmdline = [''ffprobe'', ''a.mp3''], probe_json = [],
        format_json = [], streams = [example_stream], chapters = [] \<rparr>,
     isrc_reply = ReplyJson (VDict [(''recordings'', VList [example_recording])]),
     search_reply = ReplyNotJson \<rparr>"

definition example_data :: SongMetadata where
  "example_data = \<lparr> Artist = VStr ''A'', Title = VStr ''T'', Year = VStr ''2020'',
     ISRC = VStr ''X1'', AlbumArtist = VStr '''', FilePath = ''a.mp3'' \<rparr>"

definition example_metadata :: ISRCMetadata where
  "example_metadata = \<lparr> duration = VStr ''215'', recordingVersion = VStr '''',
     isValidIsrc = VStr ''True'', recordingYear = VStr ''2020'',
     recordingArtistName = VStr ''A'', isExplicit = VStr ''True'', isrc = VStr ''X1'',
     isrcFailureCode = VStr '''', recordingTitle = VStr ''T'', id' = VStr ''7'' \<rparr>"

definition empty_run :: run_state where
  "empty_run = \<lparr> store = [], payload = search_payload \<rparr>"

text \<open>
  The template with the three fields that \<^verbatim>\<open>DoesExplicitVersionExist\<close> assigns set to
  given values, every other field as in \<^verbatim>\<open>search_payload\<close>.
\<close>

definition filled_payload :: "pyval \<Rightarrow> pyval \<Rightarrow> pyval \<Rightarrow> pyval" where
  "filled_payload artist title year = VDict [
     (''searchFields'', VDict [
        (''recordingArtistName'', VDict [(''value'', artist)]),
        (''recordingTitle'', VDict [(''value'', title)]),
        (''releaseName'', VDict [(''value'', VStr '''')]),
        (''releaseYear'', VStr ''''),
        (''recordingVersion'', VDict [(''value'', VStr '''')]),
        (''recordingYear'', year),
        (''recordingType'', VStr '''')]),
     (''start'', VInt 0),
     (''number'', VInt 100),
     (''showReleases'', VBool False)]"

text \<open>
  The values the global \<^verbatim>\<open>search_payload\<close> can have during a run: its initial value,
  and its value after a call of \<^verbatim>\<open>DoesExplicitVersionExist\<close>, the only code that
  assigns to it.
\<close>

inductive payload_reachable :: "pyval \<Rightarrow> bool" where
  initial: "payload_reachable search_payload"
| call: "payload_reachable p \<Longrightarrow>
         payload_reachable (payload_after (DoesExplicitVersionExist p song reply))"

definition keyless_song :: music_file where
  "keyless_song = \<lparr> path = ''b.mp3'',
     probed = Inr \<lparr> split_cmdline = [''ffprobe'', ''b.mp3''], probe_json = [],
        format_json = [], streams = [example_stream], chapters = [] \<rparr>,
     isrc_reply = ReplyJson (VDict [(''message'', VStr ''rate limit'')]),
     search_reply = ReplyNotJson \<rparr>"

definition example_video_stream :: ffstream where
  "example_video_stream = \<lparr> stream_class = FFvideoStream,
     parsed_json = [(''codec_type'', VStr ''video''), (''width'', VInt 1920),
       (''height'', VInt 1080), (''tags'', VDict [(''ISRC'', VStr ''V9'')])] \<rparr>"

definition example_probe :: "ffstream list \<Rightarrow> ffprobe" where
  "example_probe ss = \<lparr> split_cmdline = [''ffprobe'', ''a.mp3''], probe_json = [],
     format_json = [], streams = ss, chapters = [] \<rparr>"

subsection \<open>Concrete worlds for \<^verbatim>\<open>probe\<close>\<close>

text \<open>
  A child process that prints \<open>outs\<close> and \<open>errs\<close> and ends with \<open>status\<close> before any
  timeout.
\<close>

definition finished_process :: "string \<Rightarrow> string \<Rightarrow> int \<Rightarrow> process" where
  "finished_process outs errs status =
     \<lparr> first_communicate = (\<lambda>t. Some (outs, errs)), returncode = status,
       killed_communicate = ([], []), killed_returncode = - 9 \<rparr>"

text \<open>
  A world where every file exists, the child is the given process, and the only JSON text
  is \<^verbatim>\<open>{}\<close>.
\<close>

definition example_env :: "process \<Rightarrow> probe_env" where
  "example_env proc =
     \<lparr> isfile = (\<lambda>f. True), popen = (\<lambda>cmdline. Started proc),
       json_loads = (\<lambda>s. if s = ''{}'' then Some (VDict []) else None) \<rparr>"

text \<open>What the claim about the timeout calls a positive number.\<close>

fun positive_number :: "pyval \<Rightarrow> bool" where
  "positive_number (VInt i) = (0 < i)"
| "positive_number (VBool b) = b"
| "positive_number (VFloat (Fin q)) = (0 < q)"
| "positive_number (VFloat PInf) = True"
| "positive_number _ = False"

subsection \<open>The form of a frame rate\<close>

text \<open>
  An integer as text: an optional minus sign and one or more ASCII digits; and its value.
\<close>

definition is_int_text :: "string \<Rightarrow> bool" where
  "is_int_text t =
     (case t of
        [] \<Rightarrow> False
      | c # r \<Rightarrow> if c = CHR ''-'' then r \<noteq> [] \<and> list_all is_digit r
                 else list_all is_digit t)"

definition text_int :: "string \<Rightarrow> int" where
  "text_int t =
     (case t of
        [] \<Rightarrow> 0
      | c # r \<Rightarrow> if c = CHR ''-'' then - int (digits_nat r) else int (digits_nat t))"

text \<open>
  The strings the pattern of \<^verbatim>\<open>get_frame_rate_as_ratio\<close> accepts: \<open>n/d\<close> for two
  integers as text, with nothing after it or one newline.
\<close>

definition frame_rate_form :: "string \<Rightarrow> string \<Rightarrow> string \<Rightarrow> bool" where
  "frame_rate_form s n d =
     (is_int_text n \<and> is_int_text d \<and> (s = n @ ''/'' @ d \<or> s = n @ ''/'' @ d @ [CHR 0x0A]))"

section \<open>Verified properties\<close>

subsection \<open>The orchestrator loop and the store\<close>

lemma resolve_explicit_store:
  "store (snd (resolve_explicit st m reply)) = store st"
  by (simp add: resolve_explicit_def Let_def)

lemma storable_isrc: "storable table \<Longrightarrow> r \<in> set table \<Longrightarrow> db_bindable (row_isrc r)"
  by (auto simp: storable_def list_all_iff row_values_def)

lemma process_song_skip:
  assumes "GetTrackMetaData (probed song) (path song) = Some data"
    and "storable (store st)" and "\<exists>r\<in>set (store st). sql_eq (row_isrc r) (ISRC data)"
  shows "process_song st song = (None, st)"
proof -
  from assms(3) obtain r where r: "r \<in> set (store st)" "sql_eq (row_isrc r) (ISRC data)"
    by auto
  then have "row_isrc r = ISRC data" by (simp add: sql_eq_def)
  with assms(2) r(1) have b: "db_bindable (ISRC data)" using storable_isrc by metis
  from r have "filter (\<lambda>r. sql_eq (row_isrc r) (ISRC data)) (store st) \<noteq> []"
    by (auto simp: filter_empty_conv)
  with b assms(1) show ?thesis by (simp add: process_song_def db_select_isrc_def)
qed

lemma process_song_insert:
  assumes "GetTrackMetaData (probed song) (path song) = Some data"
    and "db_bindable (ISRC data)"
    and "\<forall>r\<in>set (store st). \<not> sql_eq (row_isrc r) (ISRC data)"
    and "GetISRCMetadata data (isrc_reply song) = Inr (Some m)"
    and "resolve_explicit st m (search_reply song) = (Inr b, st1)"
    and "list_all db_bindable (row_values (inserted_row data m b))"
  shows "process_song st song = (None, st1\<lparr>store := store st @ [inserted_row data m b]\<rparr>)"
proof -
  from assms(3) have "filter (\<lambda>r. sql_eq (row_isrc r) (ISRC data)) (store st) = []"
    by (simp add: filter_empty_conv)
  moreover from assms(5) have "store st1 = store st"
    using resolve_explicit_store [of st m "search_reply song"] by simp
  ultimately show ?thesis using assms
    by (simp add: process_song_def db_select_isrc_def db_insert_def)
qed

text \<open>
  An iteration leaves the table as it is or appends one row whose key is the ISRC of the
  file, which no row of the table had.
\<close>

lemma process_song_store:
  "store (snd (process_song st song)) = store st \<or>
   (\<exists>data r. GetTrackMetaData (probed song) (path song) = Some data \<and>
      row_isrc r = ISRC data \<and>
      (\<forall>x\<in>set (store st). \<not> sql_eq (row_isrc x) (ISRC data)) \<and>
      store (snd (process_song st song)) = store st @ [r])"
proof (cases "GetTrackMetaData (probed song) (path song)")
  case None
  then show ?thesis by (simp add: process_song_def)
next
  case (Some data)
  note data = this
  show ?thesis
  proof (cases "db_select_isrc (store st) (ISRC data)")
    case (Inl e)
    with data show ?thesis by (simp add: process_song_def)
  next
    case (Inr rows)
    note sel = this
    then have rows: "rows = filter (\<lambda>r. sql_eq (row_isrc r) (ISRC data)) (store st)"
      by (auto simp: db_select_isrc_def split: if_splits)
    show ?thesis
    proof (cases "rows = []")
      case False
      with data sel show ?thesis by (simp add: process_song_def)
    next
      case True
      note empty = this
      with rows have "filter (\<lambda>r. sql_eq (row_isrc r) (ISRC data)) (store st) = []"
        by simp
      then have none: "\<forall>x\<in>set (store st). \<not> sql_eq (row_isrc x) (ISRC data)"
        by (simp add: filter_empty_conv)
      show ?thesis
      proof (cases "GetISRCMetadata data (isrc_reply song)")
        case (Inl e)
        with data sel empty show ?thesis by (simp add: process_song_def)
      next
        case (Inr mo)
        note looked = this
        show ?thesis
        proof (cases mo)
          case None
          with data sel empty looked show ?thesis by (simp add: process_song_def)
        next
          case (Some m)
          note meta = this
          obtain res st1 where re: "resolve_explicit st m (search_reply song) = (res, st1)"
            by (cases "resolve_explicit st m (search_reply song)")
          then have st1: "store st1 = store st"
            using resolve_explicit_store [of st m "search_reply song"] by simp
          show ?thesis
          proof (cases res)
            case (Inl e)
            with data sel empty looked meta re st1 show ?thesis
              by (simp add: process_song_def)
          next
            case (Inr b)
            show ?thesis
            proof (cases "db_insert (store st1) (inserted_row data m b)")
              case (Inl e)
              with data sel empty looked meta re st1 Inr show ?thesis
                by (simp add: process_song_def)
            next
              case ins: (Inr table)
              then have "table = store st @ [inserted_row data m b]"
                using st1 by (auto simp: db_insert_def split: if_splits)
              with data sel empty looked meta re Inr ins
              have "store (snd (process_song st song)) = store st @ [inserted_row data m b]"
                by (simp add: process_song_def)
              moreover have "row_isrc (inserted_row data m b) = ISRC data"
                by (simp add: inserted_row_def)
              ultimately show ?thesis using data none by blast
            qed
          qed
        qed
      qed
    qed
  qed
qed

lemma process_song_unique:
  assumes "isrc_unique (store st)"
  shows "isrc_unique (store (snd (process_song st song)))"
proof -
  from process_song_store [of st song] show ?thesis
  proof
    assume "store (snd (process_song st song)) = store st"
    with assms show ?thesis by simp
  next
    assume "\<exists>data r. GetTrackMetaData (probed song) (path song) = Some data \<and>
      row_isrc r = ISRC data \<and>
      (\<forall>x\<in>set (store st). \<not> sql_eq (row_isrc x) (ISRC data)) \<and>
      store (snd (process_song st song)) = store st @ [r]"
    then obtain data :: SongMetadata and r where r: "row_isrc r = ISRC data"
      and n: "\<forall>x\<in>set (store st). \<not> sql_eq (row_isrc x) (ISRC data)"
      and s: "store (snd (process_song st song)) = store st @ [r]"
      by blast
    show ?thesis
    proof (cases "ISRC data = VNone")
      case True
      with r s assms show ?thesis by (simp add: isrc_unique_def)
    next
      case False
      with n have "\<forall>x\<in>set (store st). row_isrc x \<noteq> ISRC data"
        by (auto simp: sql_eq_def)
      then have "ISRC data \<notin> set (filter (\<lambda>k. k \<noteq> VNone) (map row_isrc (store st)))"
        by auto
      with r s assms False show ?thesis by (simp add: isrc_unique_def)
    qed
  qed
qed

lemma main_loop_unique:
  "isrc_unique (store st) \<Longrightarrow> isrc_unique (store (snd (main_loop st songs)))"
proof (induction songs arbitrary: st)
  case Nil
  then show ?case by simp
next
  case (Cons song songs)
  obtain r st' where ps: "process_song st song = (r, st')" by (cases "process_song st song")
  with Cons.prems have u: "isrc_unique (store st')"
    using process_song_unique [of st song] by simp
  show ?case
  proof (cases r)
    case None
    with ps Cons.IH [OF u] show ?thesis by simp
  next
    case (Some e)
    with ps u show ?thesis by simp
  qed
qed

text \<open>
  Claim C1.  In an iteration of the loop of \<^verbatim>\<open>__main__\<close>: if the table already holds a
  row whose \<^verbatim>\<open>isrc\<close> equals the ISRC read from the file, the iteration changes nothing
  (the file is skipped, nothing is inserted); if no such row exists and the catalog lookup,
  the explicit-version resolution and the \<^verbatim>\<open>INSERT\<close> succeed, exactly one row is
  appended, and its key is that ISRC.  So an iteration, and a whole run, keep the table at
  one row per ISRC at most.
\<close>

theorem orchestrator_dedup:
  "(GetTrackMetaData (probed song) (path song) = Some data \<and> storable (store st) \<and>
      (\<exists>r\<in>set (store st). sql_eq (row_isrc r) (ISRC data))
      \<longrightarrow> process_song st song = (None, st)) \<and>
   (GetTrackMetaData (probed song) (path song) = Some data \<and> db_bindable (ISRC data) \<and>
      (\<forall>r\<in>set (store st). \<not> sql_eq (row_isrc r) (ISRC data)) \<and>
      GetISRCMetadata data (isrc_reply song) = Inr (Some m) \<and>
      resolve_explicit st m (search_reply song) = (Inr b, st') \<and>
      list_all db_bindable (row_values (inserted_row data m b))
      \<longrightarrow> process_song st song = (None, st'\<lparr>store := store st @ [inserted_row data m b]\<rparr>) \<and>
          row_isrc (inserted_row data m b) = ISRC data) \<and>
   (isrc_unique (store st)
      \<longrightarrow> isrc_unique (store (snd (process_song st song))) \<and>
          isrc_unique (store (snd (main_loop st songs))))"
proof (intro conjI impI)
  assume "GetTrackMetaData (probed song) (path song) = Some data \<and> storable (store st) \<and>
      (\<exists>r\<in>set (store st). sql_eq (row_isrc r) (ISRC data))"
  then show "process_song st song = (None, st)"
    using process_song_skip by blast
next
  assume "GetTrackMetaData (probed song) (path song) = Some data \<and> db_bindable (ISRC data) \<and>
      (\<forall>r\<in>set (store st). \<not> sql_eq (row_isrc r) (ISRC data)) \<and>
      GetISRCMetadata data (isrc_reply song) = Inr (Some m) \<and>
      resolve_explicit st m (search_reply song) = (Inr b, st') \<and>
      list_all db_bindable (row_values (inserted_row data m b))"
  then show "process_song st song = (None, st'\<lparr>store := store st @ [inserted_row data m b]\<rparr>)"
    using process_song_insert by blast
next
  show "row_isrc (inserted_row data m b) = ISRC data"
    by (simp add: inserted_row_def)
next
  assume "isrc_unique (store st)"
  then show "isrc_unique (store (snd (process_song st song)))"
    by (rule process_song_unique)
next
  assume "isrc_unique (store st)"
  then show "isrc_unique (store (snd (main_loop st songs)))"
    by (rule main_loop_unique)
qed

lemma example_GetTrackMetaData:
  "GetTrackMetaData (probed example_song) (path example_song) = Some example_data"
  by (simp add: GetTrackMetaData_def example_song_def example_stream_def example_data_def
        dict_getitem_def tag_or_def)

lemma example_GetISRCMetadata:
  "GetISRCMetadata example_data (isrc_reply example_song) = Inr (Some example_metadata)"
  by (simp add: GetISRCMetadata_def example_song_def example_recording_def
        example_metadata_def py_bind_def dict_getitem_def dict_get_def
        ISRCMetadata_fields_def)

lemma example_resolve_explicit:
  "resolve_explicit st example_metadata reply = (Inr True, st)"
  by (simp add: resolve_explicit_def example_metadata_def)

lemma example_bindable:
  "list_all db_bindable (row_values (inserted_row example_data example_metadata True))"
  by (simp add: row_values_def inserted_row_def example_data_def example_metadata_def
        py_str_bool_def)

theorem orchestrator_dedup_witness:
  "process_song empty_run example_song =
     (None, empty_run\<lparr>store := [inserted_row example_data example_metadata True]\<rparr>) \<and>
   process_song (empty_run\<lparr>store := [inserted_row example_data example_metadata True]\<rparr>)
       example_song =
     (None, empty_run\<lparr>store := [inserted_row example_data example_metadata True]\<rparr>) \<and>
   isrc_unique (store (snd (main_loop empty_run [example_song, example_song])))"
proof -
  let ?row = "inserted_row example_data example_metadata True"
  let ?st1 = "empty_run\<lparr>store := [?row]\<rparr>"
  have isrc: "ISRC example_data = VStr ''X1''" by (simp add: example_data_def)
  have first: "process_song empty_run example_song = (None, ?st1)"
    using orchestrator_dedup [where song = example_song and data = example_data
        and st = empty_run and m = example_metadata and b = True and st' = empty_run]
      example_GetTrackMetaData example_GetISRCMetadata example_bindable
      example_resolve_explicit [of empty_run "search_reply example_song"] isrc
    by (simp add: empty_run_def)
  have stored: "storable (store ?st1)"
    using example_bindable by (simp add: storable_def)
  have key: "\<exists>r\<in>set (store ?st1). sql_eq (row_isrc r) (ISRC example_data)"
    by (simp add: inserted_row_def sql_eq_def isrc)
  have second: "process_song ?st1 example_song = (None, ?st1)"
    using orchestrator_dedup [where song = example_song and data = example_data
        and st = ?st1] example_GetTrackMetaData stored key
    by blast
  have "isrc_unique (store empty_run)" by (simp add: isrc_unique_def empty_run_def)
  then have "isrc_unique (store (snd (main_loop empty_run [example_song, example_song])))"
    using orchestrator_dedup [where st = empty_run] by blast
  with first second show ?thesis by simp
qed

subsection \<open>The catalog lookup by ISRC\<close>

lemma main_loop_raise:
  "process_song st song = (Some e, st') \<Longrightarrow> main_loop st (song # songs) = (Some e, st')"
  by simp

lemma main_loop_continue:
  "process_song st song = (None, st') \<Longrightarrow> main_loop st (song # songs) = main_loop st' songs"
  by simp

text \<open>
  Claim C9.  When the body of the reply parses to an object without a \<^verbatim>\<open>"recordings"\<close>
  key, \<^verbatim>\<open>GetISRCMetadata\<close> raises \<^verbatim>\<open>KeyError\<close>; a body that is not JSON and an empty
  list of recordings make it return \<^verbatim>\<open>None\<close>.  In the loop the exception ends the run at
  that file, whatever files follow, where the two handled failures go on to the next file.
\<close>

theorem GetISRCMetadata_missing_recordings:
  "(map_of d ''recordings'' = None
      \<longrightarrow> GetISRCMetadata data (ReplyJson (VDict d)) = Inl KeyError) \<and>
   GetISRCMetadata data ReplyNotJson = Inr None \<and>
   (map_of d ''recordings'' = Some (VList [])
      \<longrightarrow> GetISRCMetadata data (ReplyJson (VDict d)) = Inr None) \<and>
   (GetTrackMetaData (probed song) (path song) = Some data \<and>
    db_select_isrc (store st) (ISRC data) = Inr [] \<and>
    isrc_reply song = ReplyJson (VDict d) \<and> map_of d ''recordings'' = None
      \<longrightarrow> main_loop st (song # songs) = (Some KeyError, st)) \<and>
   (GetTrackMetaData (probed song) (path song) = Some data \<and>
    db_select_isrc (store st) (ISRC data) = Inr [] \<and>
    (isrc_reply song = ReplyNotJson \<or>
     isrc_reply song = ReplyJson (VDict d) \<and> map_of d ''recordings'' = Some (VList []))
      \<longrightarrow> main_loop st (song # songs) = main_loop st songs)"
proof -
  have raise: "GetISRCMetadata data (ReplyJson (VDict d)) = Inl KeyError"
    if "map_of d ''recordings'' = None"
    using that by (simp add: GetISRCMetadata_def py_bind_def dict_getitem_def)
  have notjson: "GetISRCMetadata data ReplyNotJson = Inr None"
    by (simp add: GetISRCMetadata_def)
  have nomatch: "GetISRCMetadata data (ReplyJson (VDict d)) = Inr None"
    if "map_of d ''recordings'' = Some (VList [])"
    using that by (simp add: GetISRCMetadata_def py_bind_def dict_getitem_def)
  have abort: "main_loop st (song # songs) = (Some KeyError, st)"
    if "GetTrackMetaData (probed song) (path song) = Some data"
      and "db_select_isrc (store st) (ISRC data) = Inr []"
      and "isrc_reply song = ReplyJson (VDict d)" and "map_of d ''recordings'' = None"
  proof -
    from that raise have "process_song st song = (Some KeyError, st)"
      by (simp add: process_song_def)
    then show ?thesis by (rule main_loop_raise)
  qed
  have skip: "main_loop st (song # songs) = main_loop st songs"
    if "GetTrackMetaData (probed song) (path song) = Some data"
      and "db_select_isrc (store st) (ISRC data) = Inr []"
      and "isrc_reply song = ReplyNotJson \<or>
           isrc_reply song = ReplyJson (VDict d) \<and> map_of d ''recordings'' = Some (VList [])"
  proof -
    from that(3) notjson nomatch have "GetISRCMetadata data (isrc_reply song) = Inr None"
      by auto
    with that(1,2) have "process_song st song = (None, st)"
      by (simp add: process_song_def)
    then show ?thesis by (rule main_loop_continue)
  qed
  from raise notjson nomatch abort skip show ?thesis by blast
qed

lemma keyless_GetTrackMetaData:
  "GetTrackMetaData (probed keyless_song) (path keyless_song) =
     Some (example_data\<lparr>FilePath := ''b.mp3''\<rparr>)"
  by (simp add: GetTrackMetaData_def keyless_song_def example_stream_def example_data_def
        dict_getitem_def tag_or_def)

theorem GetISRCMetadata_missing_recordings_witness:
  "GetISRCMetadata example_data (ReplyJson (VDict [(''message'', VStr ''rate limit'')]))
     = Inl KeyError \<and>
   main_loop empty_run [keyless_song, example_song] = (Some KeyError, empty_run) \<and>
   store (snd (main_loop empty_run [example_song])) \<noteq> []"
proof -
  have a: "map_of [(''message'', VStr ''rate limit'')] ''recordings'' = None" by simp
  have b: "db_select_isrc (store empty_run) (ISRC (example_data\<lparr>FilePath := ''b.mp3''\<rparr>)) = Inr []"
    by (simp add: db_select_isrc_def empty_run_def example_data_def)
  have c: "isrc_reply keyless_song = ReplyJson (VDict [(''message'', VStr ''rate limit'')])"
    by (simp add: keyless_song_def)
  have one: "GetISRCMetadata example_data
      (ReplyJson (VDict [(''message'', VStr ''rate limit'')])) = Inl KeyError"
    using GetISRCMetadata_missing_recordings
      [where d = "[(''message'', VStr ''rate limit'')]" and data = example_data] a
    by blast
  have two: "main_loop empty_run [keyless_song, example_song] = (Some KeyError, empty_run)"
    using GetISRCMetadata_missing_recordings
      [where d = "[(''message'', VStr ''rate limit'')]" and song = keyless_song
         and data = "example_data\<lparr>FilePath := ''b.mp3''\<rparr>" and st = empty_run
         and songs = "[example_song]"] a b c keyless_GetTrackMetaData
    by blast
  have "process_song empty_run example_song =
     (None, empty_run\<lparr>store := [inserted_row example_data example_metadata True]\<rparr>)"
    using process_song_insert [where song = example_song and data = example_data
        and st = empty_run and m = example_metadata and b = True and ?st1.0 = empty_run]
      example_GetTrackMetaData example_GetISRCMetadata example_bindable
      example_resolve_explicit [of empty_run "search_reply example_song"]
    by (simp add: empty_run_def example_data_def)
  then have three: "store (snd (main_loop empty_run [example_song])) \<noteq> []" by simp
  from one two three show ?thesis by simp
qed

subsection \<open>The shared search template\<close>

lemma search_payload_filled:
  "search_payload = filled_payload (VStr '''') (VStr '''') (VStr '''')"
  by (simp add: search_payload_def filled_payload_def)

lemma DoesExplicitVersionExist_filled:
  "payload_after (DoesExplicitVersionExist (filled_payload a t y) song reply) =
     filled_payload (recordingArtistName song) (recordingTitle song) (recordingYear song) \<and>
   request_body (DoesExplicitVersionExist (filled_payload a t y) song reply) =
     Some (filled_payload (recordingArtistName song) (recordingTitle song) (recordingYear song))"
  by (simp add: DoesExplicitVersionExist_def filled_payload_def setitem3_def setitem2_def
        py_bind_def dict_getitem_def)

lemma payload_reachable_filled:
  "payload_reachable p \<Longrightarrow> \<exists>a t y. p = filled_payload a t y"
proof (induction rule: payload_reachable.induct)
  case initial
  show ?case using search_payload_filled by blast
next
  case (call p song reply)
  then obtain a t y where "p = filled_payload a t y" by blast
  then show ?case using DoesExplicitVersionExist_filled [of a t y song reply] by blast
qed

text \<open>
  Claim C10.  Whatever calls came before (\<open>p\<close> is any value the global can have), a call of
  \<^verbatim>\<open>DoesExplicitVersionExist\<close> leaves the global equal to the template with
  \<^verbatim>\<open>recordingArtistName.value\<close>, \<^verbatim>\<open>recordingTitle.value\<close> and \<^verbatim>\<open>recordingYear\<close> set
  to the song's values and every other field as in the template, and that dictionary is
  the one serialised as the request body: the body is a function of the song alone.
  Before the call the global differs from the template in at most these three fields.
\<close>

theorem DoesExplicitVersionExist_payload:
  "payload_reachable p \<Longrightarrow>
     (\<exists>a t y. p = filled_payload a t y) \<and>
     payload_after (DoesExplicitVersionExist p song reply) =
       filled_payload (recordingArtistName song) (recordingTitle song) (recordingYear song) \<and>
     request_body (DoesExplicitVersionExist p song reply) =
       Some (filled_payload (recordingArtistName song) (recordingTitle song)
               (recordingYear song)) \<and>
     (payload_reachable p' \<longrightarrow>
        request_body (DoesExplicitVersionExist p' song reply') =
        request_body (DoesExplicitVersionExist p song reply))"
proof -
  assume r: "payload_reachable p"
  then obtain a t y where p: "p = filled_payload a t y"
    using payload_reachable_filled by blast
  have q: "request_body (DoesExplicitVersionExist p' song reply') =
        request_body (DoesExplicitVersionExist p song reply)" if "payload_reachable p'"
  proof -
    from that obtain a' t' y' where "p' = filled_payload a' t' y'"
      using payload_reachable_filled by blast
    with p show ?thesis
      using DoesExplicitVersionExist_filled [of a t y song reply]
        DoesExplicitVersionExist_filled [of a' t' y' song reply'] by simp
  qed
  from p q show ?thesis
    using DoesExplicitVersionExist_filled [of a t y song reply] by blast
qed

theorem DoesExplicitVersionExist_payload_witness:
  "payload_reachable (payload_after (DoesExplicitVersionExist search_payload example_metadata
      ReplyNotJson)) \<and>
   request_body (DoesExplicitVersionExist
      (payload_after (DoesExplicitVersionExist search_payload example_metadata ReplyNotJson))
      (example_metadata\<lparr>recordingArtistName := VStr ''B'', recordingYear := VInt 1999\<rparr>)
      RequestRaised) =
     Some (filled_payload (VStr ''B'') (VStr ''T'') (VInt 1999))"
proof -
  have r: "payload_reachable (payload_after (DoesExplicitVersionExist search_payload
      example_metadata ReplyNotJson))"
    by (rule payload_reachable.call) (rule payload_reachable.initial)
  show ?thesis
    using r DoesExplicitVersionExist_payload [OF r,
        where song = "example_metadata\<lparr>recordingArtistName := VStr ''B'',
          recordingYear := VInt 1999\<rparr>" and reply = RequestRaised]
    by (simp add: example_metadata_def)
qed

subsection \<open>Metadata normalisation\<close>

lemma GetTrackMetaData_loop_no_audio:
  "\<forall>s\<in>set ss. stream_class s \<noteq> FFaudioStream \<Longrightarrow> GetTrackMetaData_loop ss p = None"
  by (induction ss) auto

lemma GetTrackMetaData_loop_first_audio:
  "\<forall>x\<in>set pre. stream_class x \<noteq> FFaudioStream \<Longrightarrow>
   GetTrackMetaData_loop (pre @ s # post) p = GetTrackMetaData_loop (s # post) p"
  by (induction pre) auto

text \<open>
  Claim C2.  \<^verbatim>\<open>GetTrackMetaData\<close> returns \<^verbatim>\<open>None\<close> (it raises nothing) when the probe
  result has no audio stream, and when the first audio stream has no \<^verbatim>\<open>tags\<close> entry;
  otherwise it returns the record read from the tags of the first audio stream, in which a
  tag that is absent gives \<^verbatim>\<open>""\<close> for artist, album artist, title and year and
  \<^verbatim>\<open>"error"\<close> for the ISRC, and a tag that is present gives its value.
\<close>

theorem GetTrackMetaData_normalises:
  "((\<forall>x\<in>set (streams metadata). stream_class x \<noteq> FFaudioStream)
      \<longrightarrow> GetTrackMetaData (Inr metadata) p = None) \<and>
   (streams metadata = pre @ s # post \<and> (\<forall>x\<in>set pre. stream_class x \<noteq> FFaudioStream) \<and>
    stream_class s = FFaudioStream \<and> map_of (parsed_json s) ''tags'' = None
      \<longrightarrow> GetTrackMetaData (Inr metadata) p = None) \<and>
   (streams metadata = pre @ s # post \<and> (\<forall>x\<in>set pre. stream_class x \<noteq> FFaudioStream) \<and>
    stream_class s = FFaudioStream \<and> map_of (parsed_json s) ''tags'' = Some (VDict tags)
      \<longrightarrow> GetTrackMetaData (Inr metadata) p =
          Some \<lparr> Artist = (case map_of tags ''ARTIST'' of None \<Rightarrow> VStr '''' | Some v \<Rightarrow> v),
                 Title = (case map_of tags ''TITLE'' of None \<Rightarrow> VStr '''' | Some v \<Rightarrow> v),
                 Year = (case map_of tags ''DATE'' of None \<Rightarrow> VStr '''' | Some v \<Rightarrow> v),
                 ISRC = (case map_of tags ''ISRC'' of None \<Rightarrow> VStr ''error'' | Some v \<Rightarrow> v),
                 AlbumArtist =
                   (case map_of tags ''album_artist'' of None \<Rightarrow> VStr '''' | Some v \<Rightarrow> v),
                 FilePath = p \<rparr>)"
proof (intro conjI impI)
  assume "\<forall>x\<in>set (streams metadata). stream_class x \<noteq> FFaudioStream"
  then show "GetTrackMetaData (Inr metadata) p = None"
    by (simp add: GetTrackMetaData_def GetTrackMetaData_loop_no_audio)
next
  assume "streams metadata = pre @ s # post \<and>
    (\<forall>x\<in>set pre. stream_class x \<noteq> FFaudioStream) \<and>
    stream_class s = FFaudioStream \<and> map_of (parsed_json s) ''tags'' = None"
  then show "GetTrackMetaData (Inr metadata) p = None"
    by (simp add: GetTrackMetaData_def GetTrackMetaData_loop_first_audio dict_getitem_def)
next
  assume "streams metadata = pre @ s # post \<and>
    (\<forall>x\<in>set pre. stream_class x \<noteq> FFaudioStream) \<and>
    stream_class s = FFaudioStream \<and> map_of (parsed_json s) ''tags'' = Some (VDict tags)"
  then show "GetTrackMetaData (Inr metadata) p =
          Some \<lparr> Artist = (case map_of tags ''ARTIST'' of None \<Rightarrow> VStr '''' | Some v \<Rightarrow> v),
                 Title = (case map_of tags ''TITLE'' of None \<Rightarrow> VStr '''' | Some v \<Rightarrow> v),
                 Year = (case map_of tags ''DATE'' of None \<Rightarrow> VStr '''' | Some v \<Rightarrow> v),
                 ISRC = (case map_of tags ''ISRC'' of None \<Rightarrow> VStr ''error'' | Some v \<Rightarrow> v),
                 AlbumArtist =
                   (case map_of tags ''album_artist'' of None \<Rightarrow> VStr '''' | Some v \<Rightarrow> v),
                 FilePath = p \<rparr>"
    by (simp add: GetTrackMetaData_def GetTrackMetaData_loop_first_audio dict_getitem_def
          tag_or_def split: option.splits)
qed

theorem GetTrackMetaData_normalises_witness:
  "GetTrackMetaData (Inr (example_probe [example_video_stream])) ''a.mp3'' = None \<and>
   GetTrackMetaData (Inr (example_probe [example_video_stream,
       \<lparr>stream_class = FFaudioStream, parsed_json = [(''codec_type'', VStr ''audio'')]\<rparr>,
       example_stream])) ''a.mp3'' = None \<and>
   GetTrackMetaData (Inr (example_probe [example_video_stream,
       \<lparr>stream_class = FFaudioStream,
        parsed_json = [(''tags'', VDict [(''TITLE'', VStr ''T'')])]\<rparr>])) ''a.mp3'' =
     Some \<lparr> Artist = VStr '''', Title = VStr ''T'', Year = VStr '''',
            ISRC = VStr ''error'', AlbumArtist = VStr '''', FilePath = ''a.mp3'' \<rparr>"
proof -
  have v: "\<forall>x\<in>set [example_video_stream]. stream_class x \<noteq> FFaudioStream"
    by (simp add: example_video_stream_def)
  have one: "GetTrackMetaData (Inr (example_probe [example_video_stream])) ''a.mp3'' = None"
    using GetTrackMetaData_normalises
      [where metadata = "example_probe [example_video_stream]" and p = "''a.mp3''"] v
    by (simp add: example_probe_def)
  have two: "GetTrackMetaData (Inr (example_probe [example_video_stream,
       \<lparr>stream_class = FFaudioStream, parsed_json = [(''codec_type'', VStr ''audio'')]\<rparr>,
       example_stream])) ''a.mp3'' = None"
    using GetTrackMetaData_normalises
      [where metadata = "example_probe [example_video_stream,
         \<lparr>stream_class = FFaudioStream, parsed_json = [(''codec_type'', VStr ''audio'')]\<rparr>,
         example_stream]"
       and pre = "[example_video_stream]"
       and s = "\<lparr>stream_class = FFaudioStream, parsed_json = [(''codec_type'', VStr ''audio'')]\<rparr>"
       and post = "[example_stream]" and p = "''a.mp3''"] v
    by (simp add: example_probe_def)
  have three: "GetTrackMetaData (Inr (example_probe [example_video_stream,
       \<lparr>stream_class = FFaudioStream,
        parsed_json = [(''tags'', VDict [(''TITLE'', VStr ''T'')])]\<rparr>])) ''a.mp3'' =
     Some \<lparr> Artist = VStr '''', Title = VStr ''T'', Year = VStr '''',
            ISRC = VStr ''error'', AlbumArtist = VStr '''', FilePath = ''a.mp3'' \<rparr>"
    using GetTrackMetaData_normalises
      [where metadata = "example_probe [example_video_stream,
         \<lparr>stream_class = FFaudioStream,
          parsed_json = [(''tags'', VDict [(''TITLE'', VStr ''T'')])]\<rparr>]"
       and pre = "[example_video_stream]"
       and s = "\<lparr>stream_class = FFaudioStream,
          parsed_json = [(''tags'', VDict [(''TITLE'', VStr ''T'')])]\<rparr>"
       and post = "[]" and tags = "[(''TITLE'', VStr ''T'')]" and p = "''a.mp3''"] v
    by (simp add: example_probe_def)
  from one two three show ?thesis by simp
qed

text \<open>
  A \<^verbatim>\<open>tags\<close> entry that is present but is not a dictionary (\<^verbatim>\<open>null\<close>, a number, a
  string, a list) is not the absence the claim speaks of: every tag lookup in it fails and
  is caught, and the record of the defaults is returned.
\<close>

lemma GetTrackMetaData_tags_not_a_dictionary:
  "(\<And>d. tags \<noteq> VDict d) \<Longrightarrow>
   GetTrackMetaData (Inr (example_probe
       [\<lparr>stream_class = FFaudioStream, parsed_json = [(''tags'', tags)]\<rparr>])) p =
     Some \<lparr> Artist = VStr '''', Title = VStr '''', Year = VStr '''',
            ISRC = VStr ''error'', AlbumArtist = VStr '''', FilePath = p \<rparr>"
  by (cases tags) (auto simp: GetTrackMetaData_def example_probe_def dict_getitem_def tag_or_def)

subsection \<open>The prober\<close>

lemma probe_started:
  assumes "spawned (probe env media t ov v) = Some cmdline"
    and "popen env cmdline = Started proc"
  shows "returned (probe env media t ov v) = run_process env cmdline t proc"
  using assms
  by (auto simp: probe_def split: option.splits sum.splits if_splits)

text \<open>
  Claim C7, as the code has it.  \<^verbatim>\<open>probe\<close> parses the standard output before it looks
  at the exit status.  So for a child that ends with a non-zero status: when the output
  parses as JSON, \<^verbatim>\<open>FFprobeSubprocessError\<close> is raised with the command line, the status
  and the text of the error stream; when it does not parse, \<^verbatim>\<open>FFprobeJsonParseError\<close>
  is raised, whatever the status.
\<close>

theorem probe_nonzero_exit:
  assumes "spawned (probe env media t ov v) = Some cmdline"
    and "popen env cmdline = Started proc"
    and "communicate proc t = ((outs, errs), status)"
    and "status \<noteq> 0"
  shows "(json_loads env outs = Some parsed \<longrightarrow>
            returned (probe env media t ov v) = Inl (FFprobeSubprocessError cmdline status errs)) \<and>
         (json_loads env outs = None \<longrightarrow>
            returned (probe env media t ov v) =
              Inl (FFprobeJsonParseError ''json.decoder.JSONDecodeError''))"
  using assms(3,4) probe_started [OF assms(1,2)]
  by (simp add: run_process_def)

lemma example_spawned:
  "spawned (probe (example_env proc) ''a.mp3'' VNone None True) =
     Some (SPLIT_COMMAND_LINE @ [''a.mp3''])"
  by (simp add: probe_def example_env_def)

theorem probe_nonzero_exit_witness:
  "returned (probe (example_env (finished_process ''{}'' ''a.mp3: Invalid data'' 1))
      ''a.mp3'' VNone None True) =
     Inl (FFprobeSubprocessError (SPLIT_COMMAND_LINE @ [''a.mp3'']) 1 ''a.mp3: Invalid data'')"
proof -
  let ?proc = "finished_process ''{}'' ''a.mp3: Invalid data'' 1"
  have p: "popen (example_env ?proc) (SPLIT_COMMAND_LINE @ [''a.mp3'']) = Started ?proc"
    by (simp add: example_env_def)
  have c: "communicate ?proc VNone = ((''{}'', ''a.mp3: Invalid data''), 1)"
    by (simp add: communicate_def finished_process_def)
  have j: "json_loads (example_env ?proc) ''{}'' = Some (VDict [])"
    by (simp add: example_env_def)
  show ?thesis
    using probe_nonzero_exit [OF example_spawned p c, where parsed = "VDict []"] j
    by simp
qed

text \<open>
  The claim as stated fails: a child that ends with status 1 and prints no JSON gives the
  JSON-parse error, not the subprocess-failure error.
\<close>

theorem probe_nonzero_exit_counterexample:
  "returncode (finished_process ''Segmentation fault'' '''' 1) = 1 \<and>
   returned (probe (example_env (finished_process ''Segmentation fault'' '''' 1))
      ''a.mp3'' VNone None True) =
     Inl (FFprobeJsonParseError ''json.decoder.JSONDecodeError'')"
  by (simp add: probe_def example_env_def run_process_def communicate_def
        finished_process_def)

lemma check_timeout_iff:
  "check_timeout t = None \<longleftrightarrow> t = VNone \<or> t = VFloat NaN \<or> positive_number t"
proof (cases t)
  case (VFloat x)
  then show ?thesis by (cases x) (auto simp: f_le_def)
qed auto

lemma check_timeout_error:
  "check_timeout t = Some e \<Longrightarrow>
   \<exists>problem. e = FFprobeInvalidArgumentError ''communicate_timeout'' problem t"
  by (cases t) (auto split: if_splits)

text \<open>
  Claim C8, as the code has it.  The timeout is checked after the command override and
  only when it is not \<^verbatim>\<open>None\<close>.  When the override is absent or an existing file, a
  timeout that is neither \<^verbatim>\<open>None\<close> nor a NaN and is not a positive number makes
  \<^verbatim>\<open>probe\<close> raise \<^verbatim>\<open>FFprobeInvalidArgumentError\<close> for \<^verbatim>\<open>communicate_timeout\<close> with
  no process spawned; \<^verbatim>\<open>None\<close>, a NaN and every positive number pass the check.
\<close>

theorem probe_invalid_timeout:
  "((ov = None \<or> (\<exists>f. ov = Some f \<and> isfile env f)) \<and>
    t \<noteq> VNone \<and> t \<noteq> VFloat NaN \<and> \<not> positive_number t
      \<longrightarrow> spawned (probe env media t ov v) = None \<and>
          (\<exists>problem. returned (probe env media t ov v) =
             Inl (FFprobeInvalidArgumentError ''communicate_timeout'' problem t))) \<and>
   (t = VNone \<or> t = VFloat NaN \<or> positive_number t \<longrightarrow> check_timeout t = None)"
proof (intro conjI impI)
  assume a: "(ov = None \<or> (\<exists>f. ov = Some f \<and> isfile env f)) \<and>
    t \<noteq> VNone \<and> t \<noteq> VFloat NaN \<and> \<not> positive_number t"
  then have "check_timeout t \<noteq> None" by (simp add: check_timeout_iff)
  then obtain e where e: "check_timeout t = Some e" by auto
  then obtain problem where
    p: "e = FFprobeInvalidArgumentError ''communicate_timeout'' problem t"
    using check_timeout_error by blast
  from a e show "spawned (probe env media t ov v) = None"
    by (auto simp: probe_def)
  from a e p show "\<exists>problem. returned (probe env media t ov v) =
             Inl (FFprobeInvalidArgumentError ''communicate_timeout'' problem t)"
    by (auto simp: probe_def)
next
  assume "t = VNone \<or> t = VFloat NaN \<or> positive_number t"
  then show "check_timeout t = None" by (simp add: check_timeout_iff)
qed

theorem probe_invalid_timeout_witness:
  "spawned (probe (example_env (finished_process ''{}'' '''' 0)) ''a.mp3'' (VInt 0) None True)
     = None \<and>
   (\<exists>problem. returned (probe (example_env (finished_process ''{}'' '''' 0)) ''a.mp3''
        (VInt 0) None True) =
      Inl (FFprobeInvalidArgumentError ''communicate_timeout'' problem (VInt 0))) \<and>
   check_timeout (VFloat (Fin 10)) = None"
  using probe_invalid_timeout [where ov = None and t = "VInt 0" and media = "''a.mp3''"
      and env = "example_env (finished_process ''{}'' '''' 0)" and v = True]
    probe_invalid_timeout [where t = "VFloat (Fin 10)"]
  by simp

text \<open>
  The claim as stated fails: \<^verbatim>\<open>None\<close> is not a positive number, and with it \<^verbatim>\<open>probe\<close>
  spawns the process and returns its result.
\<close>

theorem probe_invalid_timeout_counterexample:
  "\<not> positive_number VNone \<and>
   spawned (probe (example_env (finished_process ''{}'' '''' 0)) ''a.mp3'' VNone None True) =
     Some (SPLIT_COMMAND_LINE @ [''a.mp3'']) \<and>
   returned (probe (example_env (finished_process ''{}'' '''' 0)) ''a.mp3'' VNone None True) =
     Inr \<lparr> split_cmdline = SPLIT_COMMAND_LINE @ [''a.mp3''], probe_json = [],
           format_json = [], streams = [], chapters = [] \<rparr>"
  by (simp add: probe_def example_env_def run_process_def communicate_def
        finished_process_def FFprobe_init_def ParsedJson_init_def py_bind_def dict_get_def
        SPLIT_COMMAND_LINE_def)

subsection \<open>Stream variants\<close>








subsection \<open>Frame rates\<close>


lemma not_digit_minus [simp]: "\<not> is_digit CHR ''-''"
  by (simp add: is_digit_def)

lemma not_digit_slash [simp]: "\<not> is_digit CHR ''/''"
  by (simp add: is_digit_def)

lemma not_digit_newline [simp]: "\<not> is_digit (CHR 0x0A)"
  by (simp add: is_digit_def)

lemma not_digit_underscore [simp]: "\<not> is_digit CHR ''_''"
  by (simp add: is_digit_def)

















lemmas frame_rate_eval =
  match_frame_rate_def split_int_prefix_def is_digit_def frame_rate_form_def is_int_text_def
  text_int_def digits_nat_def digit_val_def



subsection \<open>Data sizes\<close>









lemma floor_rat_numeral_div:
  "\<lfloor>(numeral a :: rat) / numeral b\<rfloor> = numeral a div numeral b"
  using floor_divide_of_int_eq [of "numeral a" "numeral b", where ?'a = rat] by simp

lemma floor_rat_neg_numeral_div:
  "\<lfloor>- ((numeral a :: rat) / numeral b)\<rfloor> = - numeral a div numeral b"
  using floor_divide_of_int_eq [of "- numeral a" "numeral b", where ?'a = rat] by simp

lemmas str_eval = py_strip_def is_space_def split_sign_def lower_def split_at_def
  mantissa_of_str_def exponent_of_str_def is_digit_def digits_nat_def digit_val_def
  scale10_def float_of_str_def int_of_str_def

lemmas fmt_eval = round_half_even_def Let_def digit_char_def pad_left_def zero_pad_def
  fmt_d_def fmt_3_1f_def floor_rat_numeral_div floor_rat_neg_numeral_div




text \<open>
  Rounding to one decimal place happens after the scaling, so the printed number can be
  the divisor itself.
\<close>

lemma datasize_rounds_up_to_divisor:
  "get_datasize_as_human [(''size'', VInt 999999)] ''size'' VNone ''B'' True =
     Inr (VStr ''1000.0 kB'')"
  by (simp add: get_datasize_as_human_def try_except_def py_bind_def dict_getitem_def
        datasize_units_def fmt_eval)

subsection \<open>The accessors never raise\<close>


lemma try_except_returns: "\<exists>v. try_except body dflt = Inr v"
  by (cases body) (simp_all add: try_except_def)

lemma try_except_raised: "body = Inl e \<Longrightarrow> try_except body dflt = Inr dflt"
  by (simp add: try_except_def)

lemma get_as_float_fail:
  "map_of pj key = None \<or> (\<exists>v e. map_of pj key = Some v \<and> py_float v = Inl e) \<Longrightarrow>
   get_as_float pj key dflt = Inr dflt"
  by (auto simp: get_as_float_def try_except_def py_bind_def dict_getitem_def)

lemma get_as_int_fail:
  "map_of pj key = None \<or> (\<exists>v e. map_of pj key = Some v \<and> py_int v = Inl e) \<Longrightarrow>
   get_as_int pj key dflt = Inr dflt"
  by (auto simp: get_as_int_def try_except_def py_bind_def dict_getitem_def)

lemma get_datasize_fail:
  "map_of pj key = None \<or> (\<exists>v e. map_of pj key = Some v \<and> py_float v = Inl e) \<Longrightarrow>
   get_datasize_as_human pj key dflt suffix b = Inr dflt"
  by (auto simp: get_datasize_as_human_def try_except_def py_bind_def dict_getitem_def)

lemma int_of_float_not_finite: "x \<notin> range Fin \<Longrightarrow> \<exists>e. int_of_float x = Inl e"
  by (cases x) auto

lemma floordiv_not_finite: "x \<notin> range Fin \<Longrightarrow> f_floordiv_const x d = NaN"
  by (cases x) auto

lemma get_duration_fail:
  "map_of pj ''duration'' = None \<or>
   (\<exists>v e. map_of pj ''duration'' = Some v \<and> py_float v = Inl e) \<or>
   (\<exists>v x. map_of pj ''duration'' = Some v \<and> py_float v = Inr x \<and> x \<notin> range Fin) \<Longrightarrow>
   get_duration_as_human pj dflt = Inr dflt"
  by (auto simp: get_duration_as_human_def try_except_def py_bind_def dict_getitem_def
        floordiv_not_finite Let_def)

lemma get_ratio_fail:
  "map_of pj key = None \<or> (\<exists>v e. map_of pj key = Some v \<and> re_match_groups v = Inl e) \<Longrightarrow>
   get_frame_rate_as_ratio pj key dflt = Inr dflt"
  by (auto simp: get_frame_rate_as_ratio_def try_except_def py_bind_def dict_getitem_def)

lemma get_float_rate_fail:
  assumes "map_of pj key = None \<or> (\<exists>v e. map_of pj key = Some v \<and> re_match_groups v = Inl e)"
  shows "get_frame_rate_as_float pj key dflt = Inr dflt"
  using get_ratio_fail [OF assms, of VNone]
  by (simp add: get_frame_rate_as_float_def try_except_def py_bind_def unpack2_def)

lemma get_rotation_fail:
  "map_of pj ''side_data_list'' = None \<or> map_of pj ''side_data_list'' = Some (VList []) \<Longrightarrow>
   get_frame_rotation pj dflt = Inr dflt"
  by (auto simp: get_frame_rotation_def try_except_def py_bind_def dict_get_def)

lemma get_shape_fail:
  "map_of pj ''height'' = None \<or> map_of pj ''width'' = None \<or>
   (\<exists>v e. map_of pj ''height'' = Some v \<and> py_int v = Inl e) \<or>
   (\<exists>v e. map_of pj ''width'' = Some v \<and> py_int v = Inl e) \<Longrightarrow>
   get_frame_shape printf pj dflt = Inr dflt"
  by (auto simp: get_frame_shape_def get_as_int_def try_except_def py_bind_def dict_getitem_def
        split: sum.splits)

lemma get_shape_rotation_fail:
  assumes "get_frame_rotation pj (VInt 0) = Inr r" and "py_mod_360 printf r = Inl e"
  shows "get_frame_shape printf pj dflt = Inr dflt"
  using assms
  by (auto simp: get_frame_shape_def try_except_def py_bind_def split: sum.splits)

text \<open>
  Claim C6.  Each of the eight accessors returns a value for every parsed dictionary, key
  and default: no exception leaves it.  It returns the default when the key is missing,
  when the value has a type or a text the conversion rejects (\<^verbatim>\<open>float\<close>, \<^verbatim>\<open>int\<close>, the
  frame-rate pattern), when the arithmetic fails (a duration that is infinite or not a
  number cannot be converted by \<^verbatim>\<open>int\<close>; a rotation that has no remainder), and when
  there is no side data.
\<close>

theorem accessors_never_raise:
  "(\<exists>r. get_as_float pj key dflt = Inr r) \<and>
   (\<exists>r. get_as_int pj key dflt = Inr r) \<and>
   (\<exists>r. get_datasize_as_human pj key dflt suffix base_ten = Inr r) \<and>
   (\<exists>r. get_duration_as_human pj dflt = Inr r) \<and>
   (\<exists>r. get_frame_rate_as_ratio pj key dflt = Inr r) \<and>
   (\<exists>r. get_frame_rate_as_float pj key dflt = Inr r) \<and>
   (\<exists>r. get_frame_shape printf pj dflt = Inr r) \<and>
   (\<exists>r. get_frame_rotation pj dflt = Inr r) \<and>
   (map_of pj key = None \<or> (\<exists>v e. map_of pj key = Some v \<and> py_float v = Inl e) \<longrightarrow>
      get_as_float pj key dflt = Inr dflt \<and>
      get_datasize_as_human pj key dflt suffix base_ten = Inr dflt) \<and>
   (map_of pj key = None \<or> (\<exists>v e. map_of pj key = Some v \<and> py_int v = Inl e) \<longrightarrow>
      get_as_int pj key dflt = Inr dflt) \<and>
   (map_of pj ''duration'' = None \<or>
    (\<exists>v e. map_of pj ''duration'' = Some v \<and> py_float v = Inl e) \<or>
    (\<exists>v x. map_of pj ''duration'' = Some v \<and> py_float v = Inr x \<and> x \<notin> range Fin) \<longrightarrow>
      get_duration_as_human pj dflt = Inr dflt) \<and>
   (map_of pj key = None \<or> (\<exists>v e. map_of pj key = Some v \<and> re_match_groups v = Inl e) \<longrightarrow>
      get_frame_rate_as_ratio pj key dflt = Inr dflt \<and>
      get_frame_rate_as_float pj key dflt = Inr dflt) \<and>
   (map_of pj ''side_data_list'' = None \<or> map_of pj ''side_data_list'' = Some (VList []) \<longrightarrow>
      get_frame_rotation pj dflt = Inr dflt) \<and>
   (map_of pj ''height'' = None \<or> map_of pj ''width'' = None \<or>
    (\<exists>v e. map_of pj ''height'' = Some v \<and> py_int v = Inl e) \<or>
    (\<exists>v e. map_of pj ''width'' = Some v \<and> py_int v = Inl e) \<or>
    (\<exists>r e. get_frame_rotation pj (VInt 0) = Inr r \<and> py_mod_360 printf r = Inl e) \<longrightarrow>
      get_frame_shape printf pj dflt = Inr dflt)"
proof -
  have total:
    "\<exists>r. get_as_float pj key dflt = Inr r"
    "\<exists>r. get_as_int pj key dflt = Inr r"
    "\<exists>r. get_datasize_as_human pj key dflt suffix base_ten = Inr r"
    "\<exists>r. get_duration_as_human pj dflt = Inr r"
    "\<exists>r. get_frame_rate_as_ratio pj key dflt = Inr r"
    "\<exists>r. get_frame_rate_as_float pj key dflt = Inr r"
    "\<exists>r. get_frame_shape printf pj dflt = Inr r"
    "\<exists>r. get_frame_rotation pj dflt = Inr r"
    unfolding get_as_float_def get_as_int_def get_datasize_as_human_def Let_def
      get_duration_as_human_def get_frame_rate_as_ratio_def get_frame_rate_as_float_def
      get_frame_shape_def get_frame_rotation_def
    by (rule try_except_returns)+
  have shape: "get_frame_shape printf pj dflt = Inr dflt"
    if "map_of pj ''height'' = None \<or> map_of pj ''width'' = None \<or>
        (\<exists>v e. map_of pj ''height'' = Some v \<and> py_int v = Inl e) \<or>
        (\<exists>v e. map_of pj ''width'' = Some v \<and> py_int v = Inl e) \<or>
        (\<exists>r e. get_frame_rotation pj (VInt 0) = Inr r \<and> py_mod_360 printf r = Inl e)"
    using that get_shape_fail [of pj printf dflt] get_shape_rotation_fail [of pj _ printf _ dflt]
    by blast
  show ?thesis
    using total get_as_float_fail [of pj key dflt] get_as_int_fail [of pj key dflt]
      get_datasize_fail [of pj key dflt suffix base_ten] get_duration_fail [of pj dflt]
      get_ratio_fail [of pj key dflt] get_float_rate_fail [of pj key dflt]
      get_rotation_fail [of pj dflt] shape
    by blast
qed

theorem accessors_never_raise_witness:
  "get_as_float [(''duration'', VStr ''N/A'')] ''duration'' (VStr ''?'') = Inr (VStr ''?'') \<and>
   get_datasize_as_human [(''duration'', VStr ''N/A'')] ''duration'' (VStr ''?'') ''B'' True =
     Inr (VStr ''?'') \<and>
   get_as_int [(''duration'', VStr ''N/A'')] ''width'' (VStr ''?'') = Inr (VStr ''?'') \<and>
   get_duration_as_human [(''duration'', VStr ''N/A'')] (VStr ''?'') = Inr (VStr ''?'') \<and>
   get_frame_rate_as_ratio [(''duration'', VStr ''N/A'')] ''duration'' (VStr ''?'') =
     Inr (VStr ''?'') \<and>
   get_frame_rate_as_float [(''duration'', VStr ''N/A'')] ''duration'' (VStr ''?'') =
     Inr (VStr ''?'') \<and>
   get_frame_rotation [(''duration'', VStr ''N/A'')] (VStr ''?'') = Inr (VStr ''?'') \<and>
   get_frame_shape (\<lambda>s. Inl TypeError) [(''duration'', VStr ''N/A'')] (VStr ''?'') =
     Inr (VStr ''?'')"
proof -
  have k: "map_of [(''duration'', VStr ''N/A'')] ''duration'' = Some (VStr ''N/A'')"
    "map_of [(''duration'', VStr ''N/A'')] ''width'' = None"
    "map_of [(''duration'', VStr ''N/A'')] ''side_data_list'' = None"
    by simp_all
  have f: "py_float (VStr ''N/A'') = Inl ValueError" by (simp add: str_eval)
  have m: "re_match_groups (VStr ''N/A'') = Inl AttributeError"
    by (simp add: frame_rate_eval)
  show ?thesis
    using accessors_never_raise [where pj = "[(''duration'', VStr ''N/A'')]"
        and key = "''duration''" and dflt = "VStr ''?''" and suffix = "''B''"
        and base_ten = True and printf = "\<lambda>s. Inl TypeError"]
      accessors_never_raise [where pj = "[(''duration'', VStr ''N/A'')]"
        and key = "''width''" and dflt = "VStr ''?''"]
      k f m
    by blast
qed

text \<open>The values the specification gives as examples.\<close>

lemma duration_example:
  "get_duration_as_human [(''duration'', VStr ''5751.787'')] VNone =
     Inr (VStr ''01:35:51.79'')"
proof -
  have "py_float (VStr ''5751.787'') = Inr (Fin (5751787 / 1000))"
    by (simp add: str_eval)
  then show ?thesis
    by (simp add: get_duration_as_human_def try_except_def py_bind_def dict_getitem_def
          trunc_def fmt_eval)
qed

lemma frame_shape_example:
  "get_frame_shape printf
     [(''codec_type'', VStr ''video''), (''width'', VInt 1920), (''height'', VInt 1080),
      (''side_data_list'', VList [VDict [(''rotation'', VInt 90)]])] VNone =
     Inr (VTuple [VInt 1080, VInt 1920]) \<and>
   get_frame_shape printf
     [(''codec_type'', VStr ''video''), (''width'', VInt 1920), (''height'', VInt 1080)] VNone =
     Inr (VTuple [VInt 1920, VInt 1080])"
  by (simp add: get_frame_shape_def get_frame_rotation_def get_as_int_def try_except_def
        py_bind_def dict_getitem_def dict_get_def in_90_270_def)

end
